theory Spec2Isabelle
  imports Main "HOL-Library.Sublist" "HOL-Library.Multiset"
begin

section \<open>Python values used by the runner and the uploader\<close>

text \<open>
  Strings are byte strings; every literal of the source is ASCII.  \<open>str_nat\<close> and
  \<open>str_int\<close> are Python's \<^verbatim>\<open>str()\<close> on an \<^verbatim>\<open>int\<close> (decimal, a leading minus sign
  for negative numbers), which is also what an f-string does with an \<^verbatim>\<open>int\<close>.
\<close>

definition digit_char :: "nat \<Rightarrow> char" where
  "digit_char d = char_of (48 + d)"

fun str_nat :: "nat \<Rightarrow> string" where
  "str_nat n = (if n < 10 then [digit_char n] else str_nat (n div 10) @ [digit_char (n mod 10)])"

declare str_nat.simps [simp del]

definition str_int :: "int \<Rightarrow> string" where
  "str_int i = (if i < 0 then CHR ''-'' # str_nat (nat (- i)) else str_nat (nat i))"

text \<open>\<^verbatim>\<open>str.lower()\<close> on ASCII text.\<close>

definition lower_char :: "char \<Rightarrow> char" where
  "lower_char c =
     (if (65::nat) \<le> of_char c \<and> of_char c \<le> (90::nat) then char_of (of_char c + (32::nat)) else c)"

definition lower :: "string \<Rightarrow> string" where
  "lower s = map lower_char s"

text \<open>\<^verbatim>\<open>needle in haystack\<close> on strings: substring containment.\<close>

fun py_in_str :: "string \<Rightarrow> string \<Rightarrow> bool" where
  "py_in_str needle [] = (needle = [])"
| "py_in_str needle (c # cs) = (prefix needle (c # cs) \<or> py_in_str needle cs)"

text \<open>The truth value Python gives a string: only the empty string is false.\<close>

definition truthy_str :: "string \<Rightarrow> bool" where
  "truthy_str s = (s \<noteq> [])"

text \<open>
  A distribution version as the constructor accepts it (\<^verbatim>\<open>Union[str, int]\<close>) and
  \<^verbatim>\<open>str(dist_version)\<close>.
\<close>

datatype py_version = VStr string | VInt int

fun str_version :: "py_version \<Rightarrow> string" where
  "str_version (VStr s) = s"
| "str_version (VInt i) = str_int i"

section \<open>Exceptions\<close>

datatype exn =
    ValueError string
  | TypeError string
  | FileNotFoundError string
  | FileExistsError string
  | IndexError string
  | TerraformInitializationError string
  | StartEnvironmentError string
  | ProvisionError string
  | InstallPackageError string
  | StopEnvironmentError string
  | CommandNotFound string
  | ApiException string
  | TaskFailedError string
  | UploadError string "string list"

section \<open>The runner object\<close>

type_synonym path = "string list"

text \<open>
  The three captured fields the command wrapper stores for a step, and the runner's
  attributes.  A \<^verbatim>\<open>pathlib.Path\<close> is the list of its components; \<^verbatim>\<open>None\<close> is
  \<open>None\<close>.  A \<^verbatim>\<open>Path\<close> object is always true in a boolean test, so
  \<^verbatim>\<open>not self._work_dir\<close> is \<open>work_dir self = None\<close>.
\<close>

record cmd_record =
  exit_code :: int
  stderr :: string
  stdout :: string

datatype log_level = ERROR | INFO | DEBUG

record runner =
  task_id :: string
  env_name :: string
  work_dir :: "path option"
  artifacts_dir :: "path option"
  ansible_connection_type :: string
  dist_name :: string
  dist_version :: string
  dist_arch :: string
  repositories :: "(string \<times> string) list list"
  artifacts :: "string \<rightharpoonup> cmd_record"

definition DEBIAN_FLAVORS :: "string list" where
  "DEBIAN_FLAVORS = [''debian'', ''ubuntu'', ''raspbian'']"

definition RHEL_FLAVORS :: "string list" where
  "RHEL_FLAVORS = [''fedora'', ''centos'', ''almalinux'', ''cloudlinux'']"

definition RUNNER_TYPE :: string where
  "RUNNER_TYPE = ''base''"

definition ANSIBLE_PLAYBOOK :: string where
  "ANSIBLE_PLAYBOOK = ''playbook.yml''"

definition ANSIBLE_INVENTORY_FILE :: string where
  "ANSIBLE_INVENTORY_FILE = ''hosts''"

definition TEMPFILE_PREFIX :: string where
  "TEMPFILE_PREFIX = ''base_test_runner_''"

text \<open>\<^verbatim>\<open>BaseRunner.__init__\<close>; \<^verbatim>\<open>repositories or []\<close> is the list itself or \<open>[]\<close> for \<^verbatim>\<open>None\<close>.\<close>

definition BaseRunner_init ::
  "string \<Rightarrow> string \<Rightarrow> py_version \<Rightarrow> (string \<times> string) list list option \<Rightarrow> string \<Rightarrow> runner" where
  "BaseRunner_init tid name version repos arch =
     \<lparr> task_id = tid,
       env_name = RUNNER_TYPE @ ''_'' @ tid,
       work_dir = None,
       artifacts_dir = None,
       ansible_connection_type = ''ssh'',
       dist_name = lower name,
       dist_version = lower (str_version version),
       dist_arch = lower arch,
       repositories = (case repos of None \<Rightarrow> [] | Some rs \<Rightarrow> rs),
       artifacts = Map.empty \<rparr>"

text \<open>
  The \<^verbatim>\<open>pkg_manager\<close> property.  In the source's condition \<^verbatim>\<open>and\<close> binds tighter
  than \<^verbatim>\<open>or\<close>.
\<close>

definition pkg_manager :: "runner \<Rightarrow> exn + string" where
  "pkg_manager self =
     (if dist_name self = ''fedora'' \<or>
         (dist_name self \<in> set RHEL_FLAVORS \<and> py_in_str ''8'' (dist_version self))
      then Inr ''dnf''
      else if dist_name self \<in> set RHEL_FLAVORS then Inr ''yum''
      else if dist_name self \<in> set DEBIAN_FLAVORS then Inr ''apt-get''
      else Inl (ValueError (''Unknown distribution: '' @ dist_name self)))"

section \<open>The world outside the runner\<close>

text \<open>
  What the runner reads and changes outside itself: the paths present on disk, the names
  \<^verbatim>\<open>tempfile.mkdtemp\<close> will draw under the temporary root, the directories it has
  made, the external commands run so far with the reply each next command gets (which may
  depend on everything run before), and the records written to the logger.
\<close>

record command =
  program :: string
  args :: "string list"
  cwd :: "path option"

record world =
  existing :: "path list"
  tmp_root :: path
  temp_names :: "string list"
  temp_made :: "path list"
  executed :: "command list"
  respond :: "command list \<Rightarrow> command \<Rightarrow> exn + (int \<times> string \<times> string)"
  log_records :: "(log_level \<times> string) list"

definition os_path_exists :: "world \<Rightarrow> path \<Rightarrow> bool" where
  "os_path_exists w p = (p \<in> set (existing w))"

text \<open>
  \<^verbatim>\<open>tempfile.mkdtemp(prefix=...)\<close>: the first drawn name whose path is not on disk
  becomes a new directory; running out of names is the library's \<^verbatim>\<open>FileExistsError\<close>.
\<close>

fun mkdtemp_pick :: "path list \<Rightarrow> path \<Rightarrow> string \<Rightarrow> string list \<Rightarrow> (path \<times> string list) option" where
  "mkdtemp_pick ex root pre [] = None"
| "mkdtemp_pick ex root pre (n # ns) =
     (if root @ [pre @ n] \<in> set ex then mkdtemp_pick ex root pre ns else Some (root @ [pre @ n], ns))"

definition mkdtemp :: "string \<Rightarrow> world \<Rightarrow> (exn + path) \<times> world" where
  "mkdtemp pre w =
     (case mkdtemp_pick (existing w) (tmp_root w) pre (temp_names w) of
        None \<Rightarrow> (Inl (FileExistsError ''No usable temporary directory name found''),
                  w\<lparr>temp_names := []\<rparr>)
      | Some (p, ns) \<Rightarrow>
          (Inr p, w\<lparr>existing := p # existing w, temp_names := ns, temp_made := temp_made w @ [p]\<rparr>))"

text \<open>\<^verbatim>\<open>os.mkdir\<close>: the path must be new and its parent must exist (the root always does).\<close>

definition os_mkdir :: "path \<Rightarrow> world \<Rightarrow> (exn + unit) \<times> world" where
  "os_mkdir p w =
     (if p = [] \<or> os_path_exists w p then (Inl (FileExistsError ''File exists''), w)
      else if butlast p \<noteq> [] \<and> \<not> os_path_exists w (butlast p)
        then (Inl (FileNotFoundError ''No such file or directory''), w)
      else (Inr (), w\<lparr>existing := p # existing w\<rparr>))"

text \<open>The double-quote character, for the messages that contain it.\<close>

definition dquote :: string where
  "dquote = [CHR 0x22]"

definition logger :: "log_level \<Rightarrow> string \<Rightarrow> world \<Rightarrow> world" where
  "logger lv msg w = w\<lparr>log_records := log_records w @ [(lv, msg)]\<rparr>"

text \<open>
  \<^verbatim>\<open>local[program].run(args, retcode=None, cwd=...)\<close>: the command is run and its
  (exit code, stdout, stderr) returned whatever the exit code; a reply \<open>Inl\<close> is a command
  that could not be started.
\<close>

definition plumbum_run :: "string \<Rightarrow> string list \<Rightarrow> path option \<Rightarrow> world \<Rightarrow> (exn + (int \<times> string \<times> string)) \<times> world" where
  "plumbum_run prog as dir w =
     (let c = \<lparr>program = prog, args = as, cwd = dir\<rparr>
      in (respond w (executed w) c, w\<lparr>executed := executed w @ [c]\<rparr>))"

fun str_join :: "string \<Rightarrow> string list \<Rightarrow> string" where
  "str_join sep [] = []"
| "str_join sep [x] = x"
| "str_join sep (x # y # ys) = x @ sep @ str_join sep (y # ys)"

section \<open>Working directory and artifacts directory\<close>

text \<open>\<^verbatim>\<open>BaseRunner._create_work_dir\<close>.\<close>

definition create_work_dir :: "runner \<Rightarrow> world \<Rightarrow> (exn + path) \<times> runner \<times> world" where
  "create_work_dir self w =
     (if work_dir self = None \<or> \<not> os_path_exists w (the (work_dir self)) then
        (case mkdtemp TEMPFILE_PREFIX w of
           (Inl e, w') \<Rightarrow> (Inl e, self, w')
         | (Inr p, w') \<Rightarrow> (Inr p, self\<lparr>work_dir := Some p\<rparr>, w'))
      else (Inr (the (work_dir self)), self, w))"

text \<open>
  \<^verbatim>\<open>BaseRunner._create_artifacts_dir\<close>.  Its guard tests only whether a working
  directory is recorded; \<^verbatim>\<open>self._work_dir / 'artifacts'\<close> adds one path component.
\<close>

definition create_artifacts_dir :: "runner \<Rightarrow> world \<Rightarrow> (exn + path) \<times> runner \<times> world" where
  "create_artifacts_dir self w =
     (case (if work_dir self = None then
              (case create_work_dir self w of
                 (Inl e, s, w') \<Rightarrow> (Inl e, s, w')
               | (Inr p, s, w') \<Rightarrow> (Inr p, s\<lparr>work_dir := Some p\<rparr>, w'))
            else (Inr (the (work_dir self)), self, w)) of
        (Inl e, s, w') \<Rightarrow> (Inl e, s, w')
      | (Inr d, s, w') \<Rightarrow>
          (let path = d @ [''artifacts''] in
           if \<not> os_path_exists w' path then
             (case os_mkdir path w' of
                (Inl e, w'') \<Rightarrow> (Inl e, s, w'')
              | (Inr u, w'') \<Rightarrow> (Inr path, s, w''))
           else (Inr path, s, w')))"

section \<open>The command wrapper and the wrapped steps\<close>

text \<open>
  \<^verbatim>\<open>command_decorator(exception_class, artifacts_key, error_message)(fn)\<close>.  A wrapped
  function returns a triple, or \<^verbatim>\<open>None\<close> when it falls off its end, which the
  wrapper's unpacking rejects with \<^verbatim>\<open>TypeError\<close>.  The wrapper returns \<^verbatim>\<open>None\<close>
  (\<open>Inr None\<close>) when it skips the step.
\<close>

type_synonym step_fn = "runner \<Rightarrow> world \<Rightarrow> (exn + (int \<times> string \<times> string) option) \<times> runner \<times> world"

definition command_decorator :: "(string \<Rightarrow> exn) \<Rightarrow> string \<Rightarrow> string \<Rightarrow> step_fn \<Rightarrow> step_fn" where
  "command_decorator exception_class artifacts_key error_message fn self w =
     (if work_dir self = None \<or> \<not> os_path_exists w (the (work_dir self)) then (Inr None, self, w)
      else
        (case fn self w of
           (Inl e, s1, w1) \<Rightarrow> (Inl e, s1, w1)
         | (Inr None, s1, w1) \<Rightarrow> (Inl (TypeError ''cannot unpack non-iterable NoneType object''), s1, w1)
         | (Inr (Some (ec, out, err)), s1, w1) \<Rightarrow>
             (let s2 = s1\<lparr>artifacts := (artifacts s1)(artifacts_key \<mapsto>
                          \<lparr>exit_code = ec, stderr = err, stdout = out\<rparr>)\<rparr>
              in if ec \<noteq> 0 then
                   (Inl (exception_class error_message), s2,
                    logger ERROR (error_message @ '', exit code: '' @ str_int ec @ '', error:''
                                  @ [CHR 0x0A] @ err) w1)
                 else
                   (Inr (Some (ec, out, err)), s2, logger INFO ''Operation completed successfully'' w1))))"

definition TF_VARIABLES_FILE :: "string option" where
  "TF_VARIABLES_FILE = None"

definition returned :: "(exn + (int \<times> string \<times> string)) \<times> world \<Rightarrow> runner \<Rightarrow> (exn + (int \<times> string \<times> string) option) \<times> runner \<times> world" where
  "returned rw self = (case rw of (Inl e, w') \<Rightarrow> (Inl e, self, w') | (Inr t, w') \<Rightarrow> (Inr (Some t), self, w'))"

definition initialize_terraform_fn :: step_fn where
  "initialize_terraform_fn self w =
     returned (plumbum_run ''terraform'' [''init''] (work_dir self)
       (logger DEBUG (''Running '' @ dquote @ ''terraform init'' @ dquote @ '' command'')
         (logger INFO (''Initializing Terraform environment for '' @ env_name self @ ''...'') w))) self"

definition initialize_terraform :: step_fn where
  "initialize_terraform =
     command_decorator TerraformInitializationError ''initialize_terraform''
       ''Cannot initialize terraform'' initialize_terraform_fn"

definition start_env_fn :: step_fn where
  "start_env_fn self w =
     returned (plumbum_run ''terraform''
       ([''apply'', ''--auto-approve'']
          @ (case TF_VARIABLES_FILE of None \<Rightarrow> [] | Some f \<Rightarrow> if truthy_str f then [''--var-file'', f] else []))
       (work_dir self)
       (logger DEBUG (''Running '' @ dquote @ ''terraform apply --auto-approve'' @ dquote @ '' command'')
         (logger INFO (''Starting the environment '' @ env_name self @ ''...'') w))) self"

definition start_env :: step_fn where
  "start_env =
     command_decorator StartEnvironmentError ''start_environment''
       ''Cannot start environment'' start_env_fn"

text \<open>
  \<^verbatim>\<open>install_package\<close>: \<open>full_pkg_name\<close> is the local variable of that name, decided
  by the truth value of \<^verbatim>\<open>package_version\<close> (\<^verbatim>\<open>None\<close> and the empty string are false)
  and, only when that is true, by \<^verbatim>\<open>self.pkg_manager\<close>, whose exception propagates.
\<close>

definition full_pkg_name :: "runner \<Rightarrow> string \<Rightarrow> string option \<Rightarrow> exn + string" where
  "full_pkg_name self package_name package_version =
     (case package_version of
        None \<Rightarrow> Inr package_name
      | Some v \<Rightarrow>
          if truthy_str v then
            (case pkg_manager self of
               Inl e \<Rightarrow> Inl e
             | Inr pm \<Rightarrow> if pm = ''yum'' then Inr (package_name @ ''-'' @ v)
                         else Inr (package_name @ ''='' @ v))
          else Inr package_name)"

definition install_package_args :: "runner \<Rightarrow> string \<Rightarrow> string list" where
  "install_package_args self full =
     [''-c'', ansible_connection_type self, ''-i'', ANSIBLE_INVENTORY_FILE, ANSIBLE_PLAYBOOK,
      ''-e'', ''pkg_name='' @ full, ''-t'', ''install_package'']"

definition install_package_fn :: "string \<Rightarrow> string option \<Rightarrow> step_fn" where
  "install_package_fn package_name package_version self w =
     (case full_pkg_name self package_name package_version of
        Inl e \<Rightarrow> (Inl e, self, w)
      | Inr full \<Rightarrow>
          returned (plumbum_run ''ansible-playbook'' (install_package_args self full) (work_dir self)
            (logger DEBUG (''Running '' @ dquote @ ''ansible-playbook ''
                            @ str_join '' '' (install_package_args self full) @ dquote @ '' command'')
              (logger INFO (''Installing '' @ full @ '' on '' @ env_name self @ ''...'') w))) self)"

definition install_package :: "string \<Rightarrow> string option \<Rightarrow> step_fn" where
  "install_package package_name package_version =
     command_decorator InstallPackageError ''install_package''
       ''Cannot install package'' (install_package_fn package_name package_version)"

text \<open>
  \<^verbatim>\<open>stop_env\<close>: its body runs the command only if the working directory exists, and
  otherwise falls off its end.
\<close>

definition stop_env_fn :: step_fn where
  "stop_env_fn self w =
     (case work_dir self of
        None \<Rightarrow> (Inl (TypeError ''stat: path should be string, bytes, os.PathLike or integer, not NoneType''), self, w)
      | Some d \<Rightarrow>
          if os_path_exists w d then
            returned (plumbum_run ''terraform''
              ([''destroy'', ''--auto-approve'']
                 @ (case TF_VARIABLES_FILE of None \<Rightarrow> [] | Some f \<Rightarrow> if truthy_str f then [''--var-file'', f] else []))
              (work_dir self)
              (logger DEBUG (''Running '' @ dquote @ ''terraform destroy --auto-approve'' @ dquote @ '' command'')
                (logger INFO (''Destroying the environment '' @ env_name self @ ''...'') w))) self
          else (Inr None, self, w))"

definition stop_env :: step_fn where
  "stop_env =
     command_decorator StopEnvironmentError ''stop_environment''
       ''Cannot destroy environment'' stop_env_fn"

section \<open>The Pulp uploader and its environment\<close>

text \<open>
  The requests the uploader sends to the Pulp server, each with its
  \<^verbatim>\<open>_request_timeout\<close> (\<open>None\<close> where the source passes none):
  \<^verbatim>\<open>uploads.create({'size': n})\<close>, \<^verbatim>\<open>uploads.update(content_range, href, file)\<close>,
  \<^verbatim>\<open>uploads.commit(href, {'sha256': digest})\<close>, \<^verbatim>\<open>tasks.read(href)\<close> and
  \<^verbatim>\<open>artifacts.list(sha256=digest)\<close>.
\<close>

datatype api_call =
    UploadsCreate int "int option"
  | UploadsUpdate string string string "int option"
  | UploadsCommit string string "int option"
  | TasksRead string "int option"
  | ArtifactsList string "int option"

text \<open>
  What \<^verbatim>\<open>tasks.read\<close> returns: the task state, the created resources, and the text the
  object is rendered as inside an f-string.
\<close>

record task_result =
  state :: string
  created_resources :: "string list"
  rendering :: string

text \<open>A row of \<^verbatim>\<open>fs_manifest.csv\<close>, \<open>filesize\<close> holding \<^verbatim>\<open>int(meta['filesize'])\<close>.\<close>

record chunk_meta =
  filename :: string
  filesize :: int

record file_info =
  size_bytes :: int
  sha256 :: string

text \<open>
  The server answers a request depending on the requests received before it; an answer
  \<open>Inl\<close> is the exception the client call raises.  The environment of the uploader holds
  the files on disk (size and SHA-256 digest), the server, the requests sent so far, the
  name \<^verbatim>\<open>tempfile.mkdtemp\<close> returns for a prefix, the temporary directories present, the
  manifest the file-splitting utility writes for (file, chunk size, output directory), the
  seconds slept and the log.
\<close>

record pulp_server =
  on_create :: "api_call list \<Rightarrow> int \<Rightarrow> exn + string"
  on_update :: "api_call list \<Rightarrow> string \<Rightarrow> string \<Rightarrow> string \<Rightarrow> exn + unit"
  on_commit :: "api_call list \<Rightarrow> string \<Rightarrow> string \<Rightarrow> exn + string"
  on_read :: "api_call list \<Rightarrow> string \<Rightarrow> exn + task_result"
  on_list :: "api_call list \<Rightarrow> string \<Rightarrow> exn + string list"

record pulp_env =
  files :: "string \<rightharpoonup> file_info"
  server :: pulp_server
  calls :: "api_call list"
  mkdtemp_reply :: "string \<Rightarrow> exn + string"
  temp_dirs :: "string list"
  splitter :: "string \<Rightarrow> int \<Rightarrow> string \<Rightarrow> exn + chunk_meta list"
  slept :: int
  pulp_log :: "(log_level \<times> string) list"

record uploader =
  chunk_size :: int
  requests_timeout :: int

definition DEFAULT_TIMEOUT :: int where
  "DEFAULT_TIMEOUT = 120"

definition uploads_create :: "int \<Rightarrow> int option \<Rightarrow> pulp_env \<Rightarrow> (exn + string) \<times> pulp_env" where
  "uploads_create n t env =
     (on_create (server env) (calls env) n, env\<lparr>calls := calls env @ [UploadsCreate n t]\<rparr>)"

definition uploads_update :: "string \<Rightarrow> string \<Rightarrow> string \<Rightarrow> int option \<Rightarrow> pulp_env \<Rightarrow> (exn + unit) \<times> pulp_env" where
  "uploads_update content_range reference file t env =
     (on_update (server env) (calls env) content_range reference file,
      env\<lparr>calls := calls env @ [UploadsUpdate content_range reference file t]\<rparr>)"

definition uploads_commit :: "string \<Rightarrow> string \<Rightarrow> int option \<Rightarrow> pulp_env \<Rightarrow> (exn + string) \<times> pulp_env" where
  "uploads_commit reference digest t env =
     (on_commit (server env) (calls env) reference digest,
      env\<lparr>calls := calls env @ [UploadsCommit reference digest t]\<rparr>)"

definition tasks_read :: "string \<Rightarrow> int option \<Rightarrow> pulp_env \<Rightarrow> (exn + task_result) \<times> pulp_env" where
  "tasks_read task_href t env =
     (on_read (server env) (calls env) task_href, env\<lparr>calls := calls env @ [TasksRead task_href t]\<rparr>)"

definition artifacts_list :: "string \<Rightarrow> int option \<Rightarrow> pulp_env \<Rightarrow> (exn + string list) \<times> pulp_env" where
  "artifacts_list digest t env =
     (on_list (server env) (calls env) digest, env\<lparr>calls := calls env @ [ArtifactsList digest t]\<rparr>)"

text \<open>
  Modelled from the spec: \<^verbatim>\<open>hash_file\<close> of \<^verbatim>\<open>alts.shared.utils.file_utils\<close>, which is
  not among the sources.  It returns the digest of the file's contents and fails with a
  not-found error if the path does not exist; it is only ever called with the algorithm
  name \<^verbatim>\<open>sha256\<close>.
\<close>

definition hash_file :: "pulp_env \<Rightarrow> string \<Rightarrow> exn + string" where
  "hash_file env file_path =
     (case files env file_path of
        None \<Rightarrow> Inl (FileNotFoundError file_path)
      | Some f \<Rightarrow> Inr (sha256 f))"

definition os_path_getsize :: "pulp_env \<Rightarrow> string \<Rightarrow> exn + int" where
  "os_path_getsize env file_path =
     (case files env file_path of
        None \<Rightarrow> Inl (FileNotFoundError file_path)
      | Some f \<Rightarrow> Inr (size_bytes f))"

text \<open>\<^verbatim>\<open>os.path.join\<close> of two POSIX paths and \<^verbatim>\<open>os.path.basename\<close>.\<close>

definition os_path_join :: "string \<Rightarrow> string \<Rightarrow> string" where
  "os_path_join a b =
     (if b \<noteq> [] \<and> hd b = CHR ''/'' then b
      else if a = [] \<or> last a = CHR ''/'' then a @ b
      else a @ ''/'' @ b)"

definition os_path_basename :: "string \<Rightarrow> string" where
  "os_path_basename p = rev (takeWhile (\<lambda>c. c \<noteq> CHR ''/'') (rev p))"

definition pulp_logger :: "log_level \<Rightarrow> string \<Rightarrow> pulp_env \<Rightarrow> pulp_env" where
  "pulp_logger lv msg env = env\<lparr>pulp_log := pulp_log env @ [(lv, msg)]\<rparr>"

definition time_sleep :: "int \<Rightarrow> pulp_env \<Rightarrow> pulp_env" where
  "time_sleep n env = env\<lparr>slept := slept env + n\<rparr>"

text \<open>
  The polling loop of \<^verbatim>\<open>_wait_for_task_completion\<close>.  The loop has no bound in the
  source; here it makes at most \<open>fuel\<close> further reads, and \<open>None\<close> means that the task was
  still not finished after them.
\<close>

fun poll_task :: "nat \<Rightarrow> uploader \<Rightarrow> string \<Rightarrow> task_result \<Rightarrow> pulp_env \<Rightarrow> (exn + task_result) option \<times> pulp_env" where
  "poll_task fuel self task_href result env =
     (if state result \<notin> set [''failed'', ''completed''] then
        (case fuel of
           0 \<Rightarrow> (None, env)
         | Suc k \<Rightarrow>
             (case tasks_read task_href (Some (requests_timeout self)) (time_sleep 20 env) of
                (Inl e, env') \<Rightarrow> (Some (Inl e), env')
              | (Inr result', env') \<Rightarrow> poll_task k self task_href result' env'))
      else (Some (Inr result), env))"

declare poll_task.simps [simp del]

definition wait_for_task_completion :: "nat \<Rightarrow> uploader \<Rightarrow> string \<Rightarrow> pulp_env \<Rightarrow> (exn + task_result) option \<times> pulp_env" where
  "wait_for_task_completion fuel self task_href env =
     (case tasks_read task_href None env of
        (Inl e, env1) \<Rightarrow> (Some (Inl e), env1)
      | (Inr result0, env1) \<Rightarrow>
          (case poll_task fuel self task_href result0 env1 of
             (None, env2) \<Rightarrow> (None, env2)
           | (Some (Inl e), env2) \<Rightarrow> (Some (Inl e), env2)
           | (Some (Inr result), env2) \<Rightarrow>
               if state result = ''failed'' then
                 (Some (Inl (TaskFailedError (''task '' @ task_href @ '' has failed, details: ''
                                               @ rendering result))), env2)
               else (Some (Inr result), env2)))"

definition create_upload :: "uploader \<Rightarrow> string \<Rightarrow> pulp_env \<Rightarrow> (exn + string \<times> int) \<times> pulp_env" where
  "create_upload self file_path env =
     (case os_path_getsize env file_path of
        Inl e \<Rightarrow> (Inl e, env)
      | Inr file_size \<Rightarrow>
          (case uploads_create file_size (Some (requests_timeout self)) env of
             (Inl e, env') \<Rightarrow> (Inl e, env')
           | (Inr pulp_href, env') \<Rightarrow> (Inr (pulp_href, file_size), env')))"

definition commit_upload :: "nat \<Rightarrow> uploader \<Rightarrow> string \<Rightarrow> string \<Rightarrow> pulp_env \<Rightarrow> (exn + string) option \<times> pulp_env" where
  "commit_upload fuel self file_path reference env =
     (case hash_file env file_path of
        Inl e \<Rightarrow> (Some (Inl e), env)
      | Inr file_sha256 \<Rightarrow>
          (case uploads_commit reference file_sha256 (Some (requests_timeout self)) env of
             (Inl e, env1) \<Rightarrow> (Some (Inl e), env1)
           | (Inr task, env1) \<Rightarrow>
               (case wait_for_task_completion fuel self task env1 of
                  (None, env2) \<Rightarrow> (None, env2)
                | (Some (Inl e), env2) \<Rightarrow> (Some (Inl e), env2)
                | (Some (Inr task_result), env2) \<Rightarrow>
                    (case created_resources task_result of
                       [] \<Rightarrow> (Some (Inl (IndexError ''list index out of range'')), env2)
                     | r # rs \<Rightarrow> (Some (Inr r), env2)))))"

text \<open>
  The loop of \<^verbatim>\<open>_put_large_file\<close> over the manifest rows, with the running
  \<^verbatim>\<open>lower_bytes_limit\<close>; it stops at the first request that raises.
\<close>

definition content_range :: "int \<Rightarrow> int \<Rightarrow> int \<Rightarrow> string" where
  "content_range lower_bytes_limit upper_bytes_limit total_size =
     ''bytes '' @ str_int lower_bytes_limit @ ''-'' @ str_int upper_bytes_limit @ ''/'' @ str_int total_size"

fun put_chunks :: "uploader \<Rightarrow> string \<Rightarrow> string \<Rightarrow> int \<Rightarrow> int \<Rightarrow> chunk_meta list \<Rightarrow> pulp_env \<Rightarrow> (exn + unit) \<times> pulp_env" where
  "put_chunks self temp_dir reference total_size lower_bytes_limit [] env = (Inr (), env)"
| "put_chunks self temp_dir reference total_size lower_bytes_limit (meta # rest) env =
     (case uploads_update
             (content_range lower_bytes_limit (lower_bytes_limit + filesize meta - 1) total_size)
             reference (os_path_join temp_dir (filename meta)) (Some (requests_timeout self)) env of
        (Inl e, env') \<Rightarrow> (Inl e, env')
      | (Inr u, env') \<Rightarrow>
          put_chunks self temp_dir reference total_size (lower_bytes_limit + filesize meta) rest env')"

text \<open>The \<^verbatim>\<open>finally\<close> clause of \<^verbatim>\<open>_put_large_file\<close>.\<close>

definition remove_temp_dir :: "string \<Rightarrow> pulp_env \<Rightarrow> pulp_env" where
  "remove_temp_dir temp_dir env =
     (if truthy_str temp_dir \<and> temp_dir \<in> set (temp_dirs env)
      then env\<lparr>temp_dirs := removeAll temp_dir (temp_dirs env)\<rparr> else env)"

definition put_large_file :: "uploader \<Rightarrow> string \<Rightarrow> string \<Rightarrow> pulp_env \<Rightarrow> (exn + unit) \<times> pulp_env" where
  "put_large_file self file_path reference env =
     (case mkdtemp_reply env ''pulp_uploader_'' of
        Inl e \<Rightarrow> (Inl e, env)
      | Inr temp_dir \<Rightarrow>
          (let env0 = env\<lparr>temp_dirs := temp_dir # temp_dirs env\<rparr> in
           case (case os_path_getsize env0 file_path of
                   Inl e \<Rightarrow> (Inl e, env0)
                 | Inr total_size \<Rightarrow>
                     (case splitter env0 file_path (chunk_size self) temp_dir of
                        Inl e \<Rightarrow> (Inl e, env0)
                      | Inr manifest \<Rightarrow> put_chunks self temp_dir reference total_size 0 manifest env0)) of
             (r, env1) \<Rightarrow> (r, remove_temp_dir temp_dir env1)))"

definition send_file :: "nat \<Rightarrow> uploader \<Rightarrow> string \<Rightarrow> pulp_env \<Rightarrow> (exn + string) option \<times> pulp_env" where
  "send_file fuel self file_path env =
     (case create_upload self file_path env of
        (Inl e, env1) \<Rightarrow> (Some (Inl e), env1)
      | (Inr (reference, file_size), env1) \<Rightarrow>
          (case (if file_size > chunk_size self then
                   put_large_file self file_path reference
                     (pulp_logger DEBUG (''File size exceeded '' @ str_int (chunk_size self)
                                          @ '', sending file in parts'') env1)
                 else
                   uploads_update (content_range 0 (file_size - 1) file_size)
                     reference file_path (Some (requests_timeout self)) env1) of
             (Inl e, env2) \<Rightarrow> (Some (Inl e), env2)
           | (Inr u, env2) \<Rightarrow> commit_upload fuel self file_path reference env2))"

definition check_if_artifact_exists :: "uploader \<Rightarrow> string \<Rightarrow> pulp_env \<Rightarrow> (exn + string option) \<times> pulp_env" where
  "check_if_artifact_exists self digest env =
     (case artifacts_list digest (Some (requests_timeout self)) env of
        (Inl e, env') \<Rightarrow> (Inl e, env')
      | (Inr results, env') \<Rightarrow>
          (case results of [] \<Rightarrow> (Inr None, env') | r # rs \<Rightarrow> (Inr (Some r), env')))"

record upload_record =
  rec_name :: string
  rec_href :: string
  rec_type :: string

text \<open>
  \<^verbatim>\<open>upload_single_file(filename, type_='test_log')\<close>; the argument \<open>None\<close> is the
  omitted \<^verbatim>\<open>type_\<close>.  \<^verbatim>\<open>not reference\<close> holds of \<^verbatim>\<open>None\<close> and of the empty string.
\<close>

definition upload_single_file :: "nat \<Rightarrow> uploader \<Rightarrow> string \<Rightarrow> string option \<Rightarrow> pulp_env \<Rightarrow> (exn + upload_record) option \<times> pulp_env" where
  "upload_single_file fuel self file_name type_arg env =
     (let type_tag = (case type_arg of None \<Rightarrow> ''test_log'' | Some t \<Rightarrow> t) in
      case hash_file env file_name of
        Inl e \<Rightarrow> (Some (Inl e), env)
      | Inr file_sha256 \<Rightarrow>
          (case check_if_artifact_exists self file_sha256 env of
             (Inl e, env1) \<Rightarrow> (Some (Inl e), env1)
           | (Inr reference, env1) \<Rightarrow>
               (case reference of
                  Some r \<Rightarrow>
                    if truthy_str r then
                      (Some (Inr \<lparr>rec_name = os_path_basename file_name, rec_href = r, rec_type = type_tag\<rparr>), env1)
                    else
                      (case send_file fuel self file_name env1 of
                         (None, env2) \<Rightarrow> (None, env2)
                       | (Some (Inl e), env2) \<Rightarrow> (Some (Inl e), env2)
                       | (Some (Inr r'), env2) \<Rightarrow>
                           (Some (Inr \<lparr>rec_name = os_path_basename file_name, rec_href = r', rec_type = type_tag\<rparr>), env2))
                | None \<Rightarrow>
                    (case send_file fuel self file_name env1 of
                       (None, env2) \<Rightarrow> (None, env2)
                     | (Some (Inl e), env2) \<Rightarrow> (Some (Inl e), env2)
                     | (Some (Inr r'), env2) \<Rightarrow>
                         (Some (Inr \<lparr>rec_name = os_path_basename file_name, rec_href = r', rec_type = type_tag\<rparr>), env2)))))"

text \<open>
  A finished future is the artifact it was submitted for and what
  \<^verbatim>\<open>future.result()\<close> gives, a record or a raised exception.  \<^verbatim>\<open>as_completed\<close>
  yields the futures in the order \<open>order\<close> of their indices.  The loop of
  \<^verbatim>\<open>upload\<close> appends to \<^verbatim>\<open>success_uploads\<close> or, after logging, to
  \<^verbatim>\<open>errored_uploads\<close>.
\<close>

record future =
  artifact :: string
  result :: "exn + upload_record"

definition as_completed :: "future list \<Rightarrow> nat list \<Rightarrow> future list" where
  "as_completed futures order = map (\<lambda>i. futures ! i) order"

fun collect_results :: "future list \<Rightarrow> upload_record list \<Rightarrow> string list \<Rightarrow> pulp_env \<Rightarrow> upload_record list \<times> string list \<times> pulp_env" where
  "collect_results [] success_uploads errored_uploads env = (success_uploads, errored_uploads, env)"
| "collect_results (f # fs) success_uploads errored_uploads env =
     (case result f of
        Inr r \<Rightarrow> collect_results fs (success_uploads @ [r]) errored_uploads env
      | Inl e \<Rightarrow>
          collect_results fs success_uploads (errored_uploads @ [artifact f])
            (pulp_logger ERROR (''Cannot upload '' @ artifact f) env))"

section \<open>Uploads as processes\<close>

text \<open>
  The workers of \<^verbatim>\<open>upload\<close> run \<^verbatim>\<open>upload_single_file\<close> concurrently against the same
  server.  To follow that, an upload is also given as a process: a process is finished with
  its result (\<open>Done\<close>) or takes one step on the environment and continues (\<open>Step\<close>).
  \<open>run\<close> executes a process alone to its end.  A step is one request to the server
  (\<open>atomic\<close> on a request), one look at the environment (\<open>reading\<close>), or one change of the
  clock, the log or the temporary directories (\<open>writing\<close>).
\<close>

datatype 'a proc = Done 'a | Step "pulp_env \<Rightarrow> 'a proc \<times> pulp_env"

primrec run :: "'a proc \<Rightarrow> pulp_env \<Rightarrow> 'a \<times> pulp_env" where
  "run (Done a) = (\<lambda>env. (a, env))"
| "run (Step f) = (\<lambda>env. case map_prod run id (f env) of (g, env') \<Rightarrow> g env')"

definition atomic :: "(pulp_env \<Rightarrow> 'r \<times> pulp_env) \<Rightarrow> ('r \<Rightarrow> 'a proc) \<Rightarrow> 'a proc" where
  "atomic prim k = Step (\<lambda>env. case prim env of (r, env') \<Rightarrow> (k r, env'))"

definition reading :: "(pulp_env \<Rightarrow> 'r) \<Rightarrow> ('r \<Rightarrow> 'a proc) \<Rightarrow> 'a proc" where
  "reading look k = atomic (\<lambda>env. (look env, env)) k"

definition writing :: "(pulp_env \<Rightarrow> pulp_env) \<Rightarrow> 'a proc \<Rightarrow> 'a proc" where
  "writing change p = atomic (\<lambda>env. ((), change env)) (\<lambda>u. p)"

text \<open>
  \<^verbatim>\<open>upload_single_file\<close> and the functions it calls, step by step, each followed by the
  continuation \<open>k\<close> that receives its result.  They follow the definitions above line by
  line; run alone, each is that definition (lemmas \<open>run_check\<close> to
  \<open>run_upload_single_file\<close> below).
\<close>

definition check_if_artifact_exists_steps :: "uploader \<Rightarrow> string \<Rightarrow> (exn + string option \<Rightarrow> 'a proc) \<Rightarrow> 'a proc" where
  "check_if_artifact_exists_steps self digest k =
     atomic (artifacts_list digest (Some (requests_timeout self)))
       (\<lambda>response. case response of
          Inl e \<Rightarrow> k (Inl e)
        | Inr results \<Rightarrow> (case results of [] \<Rightarrow> k (Inr None) | r # rs \<Rightarrow> k (Inr (Some r))))"

definition create_upload_steps :: "uploader \<Rightarrow> string \<Rightarrow> (exn + string \<times> int \<Rightarrow> 'a proc) \<Rightarrow> 'a proc" where
  "create_upload_steps self file_path k =
     reading (\<lambda>env. os_path_getsize env file_path)
       (\<lambda>size. case size of
          Inl e \<Rightarrow> k (Inl e)
        | Inr file_size \<Rightarrow>
            atomic (uploads_create file_size (Some (requests_timeout self)))
              (\<lambda>response. case response of
                 Inl e \<Rightarrow> k (Inl e)
               | Inr pulp_href \<Rightarrow> k (Inr (pulp_href, file_size))))"

fun poll_task_steps :: "nat \<Rightarrow> uploader \<Rightarrow> string \<Rightarrow> task_result \<Rightarrow> ((exn + task_result) option \<Rightarrow> 'a proc) \<Rightarrow> 'a proc" where
  "poll_task_steps 0 self task_href res k =
     (if state res \<notin> set [''failed'', ''completed''] then k None else k (Some (Inr res)))"
| "poll_task_steps (Suc n) self task_href res k =
     (if state res \<notin> set [''failed'', ''completed''] then
        writing (time_sleep 20)
          (atomic (tasks_read task_href (Some (requests_timeout self)))
             (\<lambda>response. case response of
                Inl e \<Rightarrow> k (Some (Inl e))
              | Inr res' \<Rightarrow> poll_task_steps n self task_href res' k))
      else k (Some (Inr res)))"

definition wait_for_task_completion_steps :: "nat \<Rightarrow> uploader \<Rightarrow> string \<Rightarrow> ((exn + task_result) option \<Rightarrow> 'a proc) \<Rightarrow> 'a proc" where
  "wait_for_task_completion_steps fuel self task_href k =
     atomic (tasks_read task_href None)
       (\<lambda>response. case response of
          Inl e \<Rightarrow> k (Some (Inl e))
        | Inr result0 \<Rightarrow>
            poll_task_steps fuel self task_href result0
              (\<lambda>polled. case polled of
                 None \<Rightarrow> k None
               | Some (Inl e) \<Rightarrow> k (Some (Inl e))
               | Some (Inr res) \<Rightarrow>
                   if state res = ''failed'' then
                     k (Some (Inl (TaskFailedError (''task '' @ task_href @ '' has failed, details: ''
                                                    @ rendering res))))
                   else k (Some (Inr res))))"

definition commit_upload_steps :: "nat \<Rightarrow> uploader \<Rightarrow> string \<Rightarrow> string \<Rightarrow> ((exn + string) option \<Rightarrow> 'a proc) \<Rightarrow> 'a proc" where
  "commit_upload_steps fuel self file_path reference k =
     reading (\<lambda>env. hash_file env file_path)
       (\<lambda>digest. case digest of
          Inl e \<Rightarrow> k (Some (Inl e))
        | Inr file_sha256 \<Rightarrow>
            atomic (uploads_commit reference file_sha256 (Some (requests_timeout self)))
              (\<lambda>response. case response of
                 Inl e \<Rightarrow> k (Some (Inl e))
               | Inr task \<Rightarrow>
                   wait_for_task_completion_steps fuel self task
                     (\<lambda>waited. case waited of
                        None \<Rightarrow> k None
                      | Some (Inl e) \<Rightarrow> k (Some (Inl e))
                      | Some (Inr task_result) \<Rightarrow>
                          (case created_resources task_result of
                             [] \<Rightarrow> k (Some (Inl (IndexError ''list index out of range'')))
                           | r # rs \<Rightarrow> k (Some (Inr r))))))"

fun put_chunks_steps :: "uploader \<Rightarrow> string \<Rightarrow> string \<Rightarrow> int \<Rightarrow> int \<Rightarrow> chunk_meta list \<Rightarrow> (exn + unit \<Rightarrow> 'a proc) \<Rightarrow> 'a proc" where
  "put_chunks_steps self temp_dir reference total_size lower_bytes_limit [] k = k (Inr ())"
| "put_chunks_steps self temp_dir reference total_size lower_bytes_limit (meta # rest) k =
     atomic (uploads_update
               (content_range lower_bytes_limit (lower_bytes_limit + filesize meta - 1) total_size)
               reference (os_path_join temp_dir (filename meta)) (Some (requests_timeout self)))
       (\<lambda>response. case response of
          Inl e \<Rightarrow> k (Inl e)
        | Inr u \<Rightarrow>
            put_chunks_steps self temp_dir reference total_size (lower_bytes_limit + filesize meta) rest k)"

definition make_temp_dir :: "string \<Rightarrow> pulp_env \<Rightarrow> (exn + string) \<times> pulp_env" where
  "make_temp_dir pre env =
     (case mkdtemp_reply env pre of
        Inl e \<Rightarrow> (Inl e, env)
      | Inr temp_dir \<Rightarrow> (Inr temp_dir, env\<lparr>temp_dirs := temp_dir # temp_dirs env\<rparr>))"

definition put_large_file_steps :: "uploader \<Rightarrow> string \<Rightarrow> string \<Rightarrow> (exn + unit \<Rightarrow> 'a proc) \<Rightarrow> 'a proc" where
  "put_large_file_steps self file_path reference k =
     atomic (make_temp_dir ''pulp_uploader_'')
       (\<lambda>made. case made of
          Inl e \<Rightarrow> k (Inl e)
        | Inr temp_dir \<Rightarrow>
            reading (\<lambda>env. os_path_getsize env file_path)
              (\<lambda>size. case size of
                 Inl e \<Rightarrow> writing (remove_temp_dir temp_dir) (k (Inl e))
               | Inr total_size \<Rightarrow>
                   reading (\<lambda>env. splitter env file_path (chunk_size self) temp_dir)
                     (\<lambda>split. case split of
                        Inl e \<Rightarrow> writing (remove_temp_dir temp_dir) (k (Inl e))
                      | Inr manifest \<Rightarrow>
                          put_chunks_steps self temp_dir reference total_size 0 manifest
                            (\<lambda>r. writing (remove_temp_dir temp_dir) (k r)))))"

definition send_file_steps :: "nat \<Rightarrow> uploader \<Rightarrow> string \<Rightarrow> ((exn + string) option \<Rightarrow> 'a proc) \<Rightarrow> 'a proc" where
  "send_file_steps fuel self file_path k =
     create_upload_steps self file_path
       (\<lambda>created. case created of
          Inl e \<Rightarrow> k (Some (Inl e))
        | Inr (reference, file_size) \<Rightarrow>
            if file_size > chunk_size self then
              writing (pulp_logger DEBUG (''File size exceeded '' @ str_int (chunk_size self)
                                          @ '', sending file in parts''))
                (put_large_file_steps self file_path reference
                   (\<lambda>sent. case sent of
                      Inl e \<Rightarrow> k (Some (Inl e))
                    | Inr u \<Rightarrow> commit_upload_steps fuel self file_path reference k))
            else
              atomic (uploads_update (content_range 0 (file_size - 1) file_size)
                        reference file_path (Some (requests_timeout self)))
                (\<lambda>sent. case sent of
                   Inl e \<Rightarrow> k (Some (Inl e))
                 | Inr u \<Rightarrow> commit_upload_steps fuel self file_path reference k))"

definition upload_single_file_steps :: "nat \<Rightarrow> uploader \<Rightarrow> string \<Rightarrow> string option \<Rightarrow> ((exn + upload_record) option \<Rightarrow> 'a proc) \<Rightarrow> 'a proc" where
  "upload_single_file_steps fuel self file_name type_arg k =
     (let type_tag = (case type_arg of None \<Rightarrow> ''test_log'' | Some t \<Rightarrow> t) in
      reading (\<lambda>env. hash_file env file_name)
        (\<lambda>digest. case digest of
           Inl e \<Rightarrow> k (Some (Inl e))
         | Inr file_sha256 \<Rightarrow>
             check_if_artifact_exists_steps self file_sha256
               (\<lambda>checked. case checked of
                  Inl e \<Rightarrow> k (Some (Inl e))
                | Inr reference \<Rightarrow>
                    (case reference of
                       Some r \<Rightarrow>
                         if truthy_str r then
                           k (Some (Inr \<lparr>rec_name = os_path_basename file_name, rec_href = r, rec_type = type_tag\<rparr>))
                         else
                           send_file_steps fuel self file_name
                             (\<lambda>sent. case sent of
                                None \<Rightarrow> k None
                              | Some (Inl e) \<Rightarrow> k (Some (Inl e))
                              | Some (Inr r') \<Rightarrow>
                                  k (Some (Inr \<lparr>rec_name = os_path_basename file_name, rec_href = r', rec_type = type_tag\<rparr>)))
                     | None \<Rightarrow>
                         send_file_steps fuel self file_name
                           (\<lambda>sent. case sent of
                              None \<Rightarrow> k None
                            | Some (Inl e) \<Rightarrow> k (Some (Inl e))
                            | Some (Inr r') \<Rightarrow>
                                k (Some (Inr \<lparr>rec_name = os_path_basename file_name, rec_href = r', rec_type = type_tag\<rparr>)))))))"

section \<open>The worker pool of the batch upload\<close>

text \<open>
  \<^verbatim>\<open>executor.submit(self.upload_single_file, artifact)\<close> makes a task: not yet taken by a
  worker (\<open>Pending\<close>), being run by a worker, with what remains of its process (\<open>Running\<close>),
  or finished with the result of its future (\<open>Finished\<close>; \<open>None\<close> is a worker still polling
  after \<open>fuel\<close> reads).  \<^verbatim>\<open>ThreadPoolExecutor(max_workers=4)\<close> takes tasks in submission
  order while fewer than four are running.  A schedule is the list of the indices of the
  tasks that move next, one step each: a pending task that may start is taken by a worker,
  a running task takes the next step of its process or, at its end, sets the result of its
  future; any other index does nothing.  When the schedule is used up, \<open>drain\<close> lets every
  unfinished task run to its end in submission order, as leaving the \<^verbatim>\<open>with\<close> block waits
  for all workers.  Every interleaving of the workers' steps is the run of some schedule.
\<close>

type_synonym outcome = "(exn + upload_record) option"

datatype task = Pending string | Running string "outcome proc" | Finished string outcome


fun is_pending :: "task \<Rightarrow> bool" where
  "is_pending (Pending a) = True"
| "is_pending t = False"

fun is_running :: "task \<Rightarrow> bool" where
  "is_running (Running a p) = True"
| "is_running t = False"


definition MAX_WORKERS :: nat where
  "MAX_WORKERS = 4"

definition may_start :: "task list \<Rightarrow> nat \<Rightarrow> bool" where
  "may_start tasks i =
     (list_all (\<lambda>t. \<not> is_pending t) (take i tasks) \<and> length (filter is_running tasks) < MAX_WORKERS)"

fun tick_task :: "nat \<Rightarrow> uploader \<Rightarrow> bool \<Rightarrow> task \<Rightarrow> pulp_env \<Rightarrow> task \<times> pulp_env" where
  "tick_task fuel self free (Pending a) env =
     (if free then (Running a (upload_single_file_steps fuel self a None Done), env) else (Pending a, env))"
| "tick_task fuel self free (Running a (Step f)) env = (case f env of (p, env') \<Rightarrow> (Running a p, env'))"
| "tick_task fuel self free (Running a (Done r)) env = (Finished a r, env)"
| "tick_task fuel self free (Finished a r) env = (Finished a r, env)"

definition tick :: "nat \<Rightarrow> uploader \<Rightarrow> nat \<Rightarrow> task list \<Rightarrow> pulp_env \<Rightarrow> task list \<times> pulp_env" where
  "tick fuel self i tasks env =
     (if i < length tasks then
        (case tick_task fuel self (may_start tasks i) (tasks ! i) env of
           (t, env') \<Rightarrow> (tasks[i := t], env'))
      else (tasks, env))"

fun run_schedule :: "nat \<Rightarrow> uploader \<Rightarrow> nat list \<Rightarrow> task list \<Rightarrow> pulp_env \<Rightarrow> task list \<times> pulp_env" where
  "run_schedule fuel self [] tasks env = (tasks, env)"
| "run_schedule fuel self (i # schedule) tasks env =
     (case tick fuel self i tasks env of (tasks', env') \<Rightarrow> run_schedule fuel self schedule tasks' env')"

fun finish_task :: "nat \<Rightarrow> uploader \<Rightarrow> task \<Rightarrow> pulp_env \<Rightarrow> task \<times> pulp_env" where
  "finish_task fuel self (Pending a) env =
     (case run (upload_single_file_steps fuel self a None Done) env of (r, env') \<Rightarrow> (Finished a r, env'))"
| "finish_task fuel self (Running a p) env = (case run p env of (r, env') \<Rightarrow> (Finished a r, env'))"
| "finish_task fuel self (Finished a r) env = (Finished a r, env)"

fun drain :: "nat \<Rightarrow> uploader \<Rightarrow> task list \<Rightarrow> pulp_env \<Rightarrow> task list \<times> pulp_env" where
  "drain fuel self [] env = ([], env)"
| "drain fuel self (t # ts) env =
     (case finish_task fuel self t env of
        (t', env') \<Rightarrow> (case drain fuel self ts env' of (ts', env'') \<Rightarrow> (t' # ts', env'')))"

definition run_workers :: "nat \<Rightarrow> uploader \<Rightarrow> nat list \<Rightarrow> task list \<Rightarrow> pulp_env \<Rightarrow> task list \<times> pulp_env" where
  "run_workers fuel self schedule tasks env =
     (case run_schedule fuel self schedule tasks env of (tasks', env') \<Rightarrow> drain fuel self tasks' env')"

text \<open>
  \<^verbatim>\<open>upload(artifacts_dir)\<close>.  \<^verbatim>\<open>get_artifacts_list\<close> belongs to the base class, which
  is not among the sources, and is the parameter of that name; \<open>artifacts_directory\<close> is the
  source's \<^verbatim>\<open>artifacts_dir\<close>.  Every listed artifact is submitted; the workers run
  under \<open>schedule\<close>; \<^verbatim>\<open>as_completed\<close> yields the finished futures in the order \<open>order\<close>.
  \<open>None\<close> is a call that does not return because a worker never finishes.
\<close>

fun task_future :: "task \<Rightarrow> future option" where
  "task_future (Finished a (Some r)) = Some \<lparr>artifact = a, result = r\<rparr>"
| "task_future t = None"

definition upload :: "nat \<Rightarrow> uploader \<Rightarrow> (string \<Rightarrow> string list) \<Rightarrow> string \<Rightarrow> nat list \<Rightarrow> nat list \<Rightarrow> pulp_env \<Rightarrow> (exn + upload_record list) option \<times> pulp_env" where
  "upload fuel self get_artifacts_list artifacts_directory schedule order env =
     (case run_workers fuel self schedule (map Pending (get_artifacts_list artifacts_directory))
             (pulp_logger INFO ''Starting files upload'' env) of
        (tasks, env1) \<Rightarrow>
          (case those (map task_future tasks) of
             None \<Rightarrow> (None, env1)
           | Some futures \<Rightarrow>
               (case collect_results (as_completed futures order) [] [] env1 of
                  (success_uploads, errored_uploads, env2) \<Rightarrow>
                    if errored_uploads \<noteq> [] then
                      (Some (Inl (UploadError ''Unable to upload files: '' errored_uploads)), env2)
                    else (Some (Inr success_uploads), env2))))"

section \<open>What every step of an upload keeps\<close>


inductive ensures :: "(string \<rightharpoonup> file_info) \<Rightarrow> api_call \<Rightarrow> 'a proc \<Rightarrow> bool" for fs :: "string \<rightharpoonup> file_info" and c :: api_call where
  ensures_Step:
    "(\<And>env. files env = fs \<Longrightarrow> c \<in> set (calls (snd (f env))) \<or> ensures fs c (fst (f env)))
     \<Longrightarrow> ensures fs c (Step f)"







section \<open>The byte ranges of a chunked transfer, as specified\<close>

text \<open>
  For chunk sizes \<open>s\<^sub>1, \<dots>, s\<^sub>n\<close> the specification lists the ranges
  \<open>0..s\<^sub>1-1\<close>, \<open>s\<^sub>1..s\<^sub>1+s\<^sub>2-1\<close>, \<dots>: chunk \<open>i\<close> (from 0) starts at the sum of the sizes
  before it and ends one byte before the sum of the sizes up to and including it.
  \<open>expected_updates\<close> are the update requests carrying these ranges, one per manifest row
  in manifest order.  \<open>ranges_from\<close> is the same list computed with a running offset.
\<close>

definition spec_ranges :: "int list \<Rightarrow> (int \<times> int) list" where
  "spec_ranges sizes =
     map (\<lambda>i. (sum_list (take i sizes), sum_list (take (Suc i) sizes) - 1)) [0..<length sizes]"

definition expected_updates :: "uploader \<Rightarrow> string \<Rightarrow> string \<Rightarrow> int \<Rightarrow> chunk_meta list \<Rightarrow> api_call list" where
  "expected_updates self temp_dir reference total_size manifest =
     map (\<lambda>((lo, hi), meta).
            UploadsUpdate (content_range lo hi total_size) reference
              (os_path_join temp_dir (filename meta)) (Some (requests_timeout self)))
         (zip (spec_ranges (map filesize manifest)) manifest)"

fun ranges_from :: "int \<Rightarrow> int list \<Rightarrow> (int \<times> int) list" where
  "ranges_from lo [] = []"
| "ranges_from lo (s # ss) = (lo, lo + s - 1) # ranges_from (lo + s) ss"

section \<open>Example runners and worlds\<close>

text \<open>
  \<open>has_work_dir\<close> is the negation of the guard shared by the wrapper and
  \<^verbatim>\<open>_create_work_dir\<close>: a working directory is recorded and is on disk.  The rest are
  concrete runners and worlds on which the theorems below are evaluated: in \<open>demo_world\<close>
  the directory \<open>demo_dir\<close> is on disk and every command gets the given reply; in
  \<open>fresh_world\<close> only the temporary root is on disk.
\<close>

definition has_work_dir :: "runner \<Rightarrow> world \<Rightarrow> bool" where
  "has_work_dir self w = (case work_dir self of None \<Rightarrow> False | Some d \<Rightarrow> os_path_exists w d)"

definition demo_dir :: path where
  "demo_dir = [''tmp'', ''base_test_runner_k3x9'']"

definition demo_world :: "(int \<times> string \<times> string) \<Rightarrow> world" where
  "demo_world reply =
     \<lparr> existing = [demo_dir, [''tmp'']],
       tmp_root = [''tmp''],
       temp_names = [''k3x9'', ''q7w2''],
       temp_made = [],
       executed = [],
       respond = (\<lambda>h c. Inr reply),
       log_records = [] \<rparr>"

definition fresh_world :: world where
  "fresh_world = (demo_world (0, [], []))\<lparr>existing := [[''tmp'']]\<rparr>"

definition centos7 :: runner where
  "centos7 = BaseRunner_init ''test_id_3'' ''centos'' (VInt 7) None ''x86_64''"

definition ubuntu :: runner where
  "ubuntu = BaseRunner_init ''test_id_4'' ''ubuntu'' (VStr ''20.04'') None ''x86_64''"

text \<open>
  An uploader with a chunk size of 10 bytes, and a server that accepts every request,
  finishes every task at the first read, and lists a digest as present once an upload with
  that digest has been committed.  In \<open>demo_env\<close> there are an empty file, a 25-byte file
  that the splitting utility cuts into chunks of 10, 10 and 5 bytes, and nothing has been
  sent yet.
\<close>

definition demo_uploader :: uploader where
  "demo_uploader = \<lparr>chunk_size = 10, requests_timeout = DEFAULT_TIMEOUT\<rparr>"

fun committed_digest :: "api_call \<Rightarrow> string option" where
  "committed_digest (UploadsCommit reference digest t) = Some digest"
| "committed_digest c = None"

definition demo_server :: pulp_server where
  "demo_server =
     \<lparr> on_create = (\<lambda>h n. Inr ''/pulp/api/v3/uploads/1/''),
       on_update = (\<lambda>h content_range reference file. Inr ()),
       on_commit = (\<lambda>h reference digest. Inr ''/pulp/api/v3/tasks/1/''),
       on_read = (\<lambda>h task_href.
                    Inr \<lparr>state = ''completed'', created_resources = [''/pulp/api/v3/artifacts/1/''],
                         rendering = ''task''\<rparr>),
       on_list = (\<lambda>h digest. if Some digest \<in> set (map committed_digest h)
                              then Inr [''/pulp/api/v3/artifacts/1/''] else Inr []) \<rparr>"

definition demo_env :: pulp_env where
  "demo_env =
     \<lparr> files = [''/logs/empty.log'' \<mapsto> \<lparr>size_bytes = 0, sha256 = ''e3b0c442''\<rparr>,
                ''/logs/tests.log'' \<mapsto> \<lparr>size_bytes = 25, sha256 = ''9f86d081''\<rparr>],
       server = demo_server,
       calls = [],
       mkdtemp_reply = (\<lambda>pre. Inr (''/tmp/'' @ pre @ ''a1b2'')),
       temp_dirs = [],
       splitter = (\<lambda>file csize out.
                     Inr [\<lparr>filename = ''tests_1.log'', filesize = 10\<rparr>,
                          \<lparr>filename = ''tests_2.log'', filesize = 10\<rparr>,
                          \<lparr>filename = ''tests_3.log'', filesize = 5\<rparr>]),
       slept = 0,
       pulp_log = [] \<rparr>"

text \<open>The same environment after an upload with the digest of the 25-byte file was committed.\<close>

definition committed_env :: pulp_env where
  "committed_env = demo_env\<lparr>calls := [UploadsCommit ''/pulp/api/v3/uploads/1/'' ''9f86d081'' (Some 120)]\<rparr>"




section \<open>Package-manager resolution\<close>

lemma py_in_str_single: "py_in_str [c] s = (c \<in> set s)"
  by (induction s) auto

lemma str_nat_digit: "n < 10 \<Longrightarrow> str_nat n = [digit_char n]"
  by (simp add: str_nat.simps)

text \<open>
  C1.  Whatever the runner, \<open>pkg_manager\<close> is decided by the distribution name and
  version alone: a RHEL-family name whose version string contains the character 8, or the
  name fedora with any version, gives dnf; any other RHEL-family name gives yum; a
  debian-family name gives apt-get; every other name raises \<open>ValueError\<close>.
\<close>

theorem pkg_manager_resolution:
  "((dist_name r \<in> {''fedora'', ''centos'', ''almalinux'', ''cloudlinux''} \<and> CHR ''8'' \<in> set (dist_version r))
      \<or> dist_name r = ''fedora''
      \<longrightarrow> pkg_manager r = Inr ''dnf'')
   \<and> (dist_name r \<in> {''centos'', ''almalinux'', ''cloudlinux''} \<and> CHR ''8'' \<notin> set (dist_version r)
      \<longrightarrow> pkg_manager r = Inr ''yum'')
   \<and> (dist_name r \<in> {''debian'', ''ubuntu'', ''raspbian''}
      \<longrightarrow> pkg_manager r = Inr ''apt-get'')
   \<and> (dist_name r \<notin> {''fedora'', ''centos'', ''almalinux'', ''cloudlinux'', ''debian'', ''ubuntu'', ''raspbian''}
      \<longrightarrow> pkg_manager r = Inl (ValueError (''Unknown distribution: '' @ dist_name r)))"
  by (auto simp add: pkg_manager_def RHEL_FLAVORS_def DEBIAN_FLAVORS_def py_in_str_single)

lemma centos7_fields:
  "dist_name centos7 = ''centos''" "dist_version centos7 = ''7''" "work_dir centos7 = None"
  "ansible_connection_type centos7 = ''ssh''"
  by (code_simp+)

lemma ubuntu_fields:
  "dist_name ubuntu = ''ubuntu''" "dist_version ubuntu = ''20.04''" "work_dir ubuntu = None"
  "ansible_connection_type ubuntu = ''ssh''"
  by (code_simp+)

lemma init_examples:
  "dist_name (BaseRunner_init ''id'' ''centos'' (VInt 8) None ''x86_64'') = ''centos''"
  "dist_version (BaseRunner_init ''id'' ''centos'' (VInt 8) None ''x86_64'') = ''8''"
  "dist_name (BaseRunner_init ''test_id_1'' ''Fedora'' (VStr ''33'') None ''x86_64'') = ''fedora''"
  "dist_name (BaseRunner_init ''id'' ''test_name'' (VStr ''test'') (Some []) ''test_arch'') = ''test_name''"
  by (code_simp+)

text \<open>
  C1, evaluated on the constructor's output for the cases of the specification and of the
  tests: centos 7, centos 8, ubuntu 20.04, Fedora 33 and an unknown name.
\<close>

theorem pkg_manager_resolution_witness:
  "pkg_manager centos7 = Inr ''yum''
   \<and> pkg_manager (BaseRunner_init ''id'' ''centos'' (VInt 8) None ''x86_64'') = Inr ''dnf''
   \<and> pkg_manager ubuntu = Inr ''apt-get''
   \<and> pkg_manager (BaseRunner_init ''test_id_1'' ''Fedora'' (VStr ''33'') None ''x86_64'') = Inr ''dnf''
   \<and> pkg_manager (BaseRunner_init ''id'' ''test_name'' (VStr ''test'') (Some []) ''test_arch'')
       = Inl (ValueError ''Unknown distribution: test_name'')"
  using pkg_manager_resolution [of centos7]
    pkg_manager_resolution [of "BaseRunner_init ''id'' ''centos'' (VInt 8) None ''x86_64''"]
    pkg_manager_resolution [of ubuntu]
    pkg_manager_resolution [of "BaseRunner_init ''test_id_1'' ''Fedora'' (VStr ''33'') None ''x86_64''"]
    pkg_manager_resolution [of "BaseRunner_init ''id'' ''test_name'' (VStr ''test'') (Some []) ''test_arch''"]
  by (simp add: centos7_fields ubuntu_fields init_examples)

section \<open>The command wrapper\<close>

lemma executed_logger [simp]: "executed (logger lv m w) = executed w"
  by (simp add: logger_def)

lemma existing_logger [simp]: "existing (logger lv m w) = existing w"
  by (simp add: logger_def)

lemma respond_logger [simp]: "respond (logger lv m w) = respond w"
  by (simp add: logger_def)

lemma demo_exists: "os_path_exists (demo_world reply) demo_dir"
  by (simp add: os_path_exists_def demo_world_def)

text \<open>
  C3.  When the working directory is recorded and on disk and the wrapped function
  returns (exit code, stdout, stderr), the wrapper stores the record of the three under
  the step's artifact key in the runner the wrapped function left; with a non-zero exit
  code it then raises the step's exception class on the step's message, that runner being
  the state at the raise, and with exit code zero it returns the triple.
\<close>

theorem command_decorator_outcome:
  assumes "work_dir self = Some d" and "os_path_exists w d"
    and "fn self w = (Inr (Some (ec, out, err)), s1, w1)"
  shows "(ec \<noteq> 0 \<longrightarrow>
            command_decorator exception_class artifacts_key error_message fn self w =
              (Inl (exception_class error_message),
               s1\<lparr>artifacts := (artifacts s1)(artifacts_key \<mapsto> \<lparr>exit_code = ec, stderr = err, stdout = out\<rparr>)\<rparr>,
               logger ERROR (error_message @ '', exit code: '' @ str_int ec @ '', error:'' @ [CHR 0x0A] @ err) w1))
       \<and> (ec = 0 \<longrightarrow>
            command_decorator exception_class artifacts_key error_message fn self w =
              (Inr (Some (ec, out, err)),
               s1\<lparr>artifacts := (artifacts s1)(artifacts_key \<mapsto> \<lparr>exit_code = ec, stderr = err, stdout = out\<rparr>)\<rparr>,
               logger INFO ''Operation completed successfully'' w1))"
  using assms by (simp add: command_decorator_def)

lemma init_tf_fn_demo:
  "initialize_terraform_fn (centos7\<lparr>work_dir := Some demo_dir\<rparr>) (demo_world reply)
     = (Inr (Some reply), centos7\<lparr>work_dir := Some demo_dir\<rparr>,
        snd (plumbum_run ''terraform'' [''init''] (Some demo_dir)
          (logger DEBUG (''Running '' @ dquote @ ''terraform init'' @ dquote @ '' command'')
            (logger INFO (''Initializing Terraform environment for '' @ env_name centos7 @ ''...'') (demo_world reply)))))"
  by (simp add: initialize_terraform_fn_def returned_def plumbum_run_def logger_def demo_world_def Let_def)

text \<open>
  C3 on \<^verbatim>\<open>initialize_terraform\<close>: a reply with exit code 1 is recorded and raises
  \<open>TerraformInitializationError\<close>; a reply with exit code 0 is recorded and returned.
\<close>

theorem command_decorator_outcome_witness:
  "fst (initialize_terraform (centos7\<lparr>work_dir := Some demo_dir\<rparr>) (demo_world (1, ''out'', ''boom'')))
     = Inl (TerraformInitializationError ''Cannot initialize terraform'')
   \<and> artifacts (fst (snd (initialize_terraform (centos7\<lparr>work_dir := Some demo_dir\<rparr>) (demo_world (1, ''out'', ''boom'')))))
       ''initialize_terraform'' = Some \<lparr>exit_code = 1, stderr = ''boom'', stdout = ''out''\<rparr>
   \<and> fst (initialize_terraform (centos7\<lparr>work_dir := Some demo_dir\<rparr>) (demo_world (0, ''done'', [])))
     = Inr (Some (0, ''done'', []))
   \<and> artifacts (fst (snd (initialize_terraform (centos7\<lparr>work_dir := Some demo_dir\<rparr>) (demo_world (0, ''done'', [])))))
       ''initialize_terraform'' = Some \<lparr>exit_code = 0, stderr = [], stdout = ''done''\<rparr>"
proof -
  have wd: "work_dir (centos7\<lparr>work_dir := Some demo_dir\<rparr>) = Some demo_dir" by simp
  show ?thesis
    unfolding initialize_terraform_def
    using command_decorator_outcome [where fn = initialize_terraform_fn and exception_class = TerraformInitializationError
            and artifacts_key = "''initialize_terraform''" and error_message = "''Cannot initialize terraform''",
            OF wd demo_exists init_tf_fn_demo [of "(1, ''out'', ''boom'')"]]
          command_decorator_outcome [where fn = initialize_terraform_fn and exception_class = TerraformInitializationError
            and artifacts_key = "''initialize_terraform''" and error_message = "''Cannot initialize terraform''",
            OF wd demo_exists init_tf_fn_demo [of "(0, ''done'', [])"]]
    by simp
qed

text \<open>
  C4.  When no working directory is recorded, or the recorded one is not on disk, a
  wrapped step returns \<^verbatim>\<open>None\<close> and leaves the runner (its artifact map included) and
  the world (the commands executed, the log) as they were, whatever the wrapped function
  is: the wrapped function has not run and nothing is raised.
\<close>

theorem command_decorator_noop:
  assumes "work_dir self = None \<or> (\<exists>d. work_dir self = Some d \<and> \<not> os_path_exists w d)"
  shows "command_decorator exception_class artifacts_key error_message fn self w = (Inr None, self, w)"
  using assms by (auto simp add: command_decorator_def)

text \<open>
  C4 on a runner just constructed (\<^verbatim>\<open>initialize_terraform\<close>) and on a runner whose
  recorded directory is gone (\<^verbatim>\<open>stop_env\<close>).
\<close>

theorem command_decorator_noop_witness:
  "initialize_terraform centos7 fresh_world = (Inr None, centos7, fresh_world)
   \<and> stop_env (centos7\<lparr>work_dir := Some demo_dir\<rparr>) fresh_world
        = (Inr None, centos7\<lparr>work_dir := Some demo_dir\<rparr>, fresh_world)"
proof -
  have a: "work_dir centos7 = None \<or> (\<exists>d. work_dir centos7 = Some d \<and> \<not> os_path_exists fresh_world d)"
    by (simp add: centos7_fields)
  have b: "work_dir (centos7\<lparr>work_dir := Some demo_dir\<rparr>) = None
           \<or> (\<exists>d. work_dir (centos7\<lparr>work_dir := Some demo_dir\<rparr>) = Some d \<and> \<not> os_path_exists fresh_world d)"
    by (simp add: os_path_exists_def fresh_world_def demo_dir_def)
  show ?thesis
    unfolding initialize_terraform_def stop_env_def
    using command_decorator_noop [OF a] command_decorator_noop [OF b] by simp
qed

section \<open>Package installation\<close>

lemma executed_plumbum_run:
  "executed (snd (plumbum_run prog as dir w)) = executed w @ [\<lparr>program = prog, args = as, cwd = dir\<rparr>]"
  by (simp add: plumbum_run_def Let_def)

lemma executed_returned: "executed (snd (snd (returned rw self))) = executed (snd rw)"
  by (cases rw) (auto simp add: returned_def split: sum.splits)

lemma executed_command_decorator_live:
  assumes "work_dir self = Some d" and "os_path_exists w d"
  shows "executed (snd (snd (command_decorator exc key msg fn self w))) = executed (snd (snd (fn self w)))"
  using assms
  by (cases "fn self w") (auto simp add: command_decorator_def Let_def split: sum.splits option.splits prod.splits)

lemma install_package_executed:
  assumes "work_dir self = Some d" and "os_path_exists w d"
    and "full_pkg_name self package_name package_version = Inr full"
  shows "executed (snd (snd (install_package package_name package_version self w)))
           = executed w @ [\<lparr>program = ''ansible-playbook'',
                              args = [''-c'', ansible_connection_type self, ''-i'', ''hosts'', ''playbook.yml'',
                                      ''-e'', ''pkg_name='' @ full, ''-t'', ''install_package''],
                              cwd = Some d\<rparr>]"
proof -
  have "executed (snd (snd (install_package package_name package_version self w)))
          = executed (snd (snd (install_package_fn package_name package_version self w)))"
    unfolding install_package_def using assms(1,2) by (rule executed_command_decorator_live)
  also have "\<dots> = executed w @ [\<lparr>program = ''ansible-playbook'', args = install_package_args self full, cwd = Some d\<rparr>]"
    using assms(1,3) by (simp add: install_package_fn_def executed_returned executed_plumbum_run)
  finally show ?thesis
    by (simp add: install_package_args_def ANSIBLE_INVENTORY_FILE_def ANSIBLE_PLAYBOOK_def)
qed

lemma centos7_yum: "pkg_manager (centos7\<lparr>work_dir := Some demo_dir\<rparr>) = Inr ''yum''"
  by (simp add: pkg_manager_def centos7_fields RHEL_FLAVORS_def)

lemma ubuntu_apt: "pkg_manager (ubuntu\<lparr>work_dir := Some demo_dir\<rparr>) = Inr ''apt-get''"
  by (simp add: pkg_manager_def ubuntu_fields RHEL_FLAVORS_def DEBIAN_FLAVORS_def)

text \<open>
  C2 as stated fails when the version supplied is the empty string: on a yum runner,
  \<^verbatim>\<open>install_package('nginx', '')\<close> runs the playbook with \<^verbatim>\<open>pkg_name=nginx\<close>, not with
  \<^verbatim>\<open>pkg_name=nginx-\<close>, because the source tests the truth value of the version.
\<close>

theorem install_package_empty_version_counterexample:
  "pkg_manager (centos7\<lparr>work_dir := Some demo_dir\<rparr>) = Inr ''yum''
   \<and> executed (snd (snd (install_package ''nginx'' (Some []) (centos7\<lparr>work_dir := Some demo_dir\<rparr>) (demo_world (0, [], [])))))
       = [\<lparr>program = ''ansible-playbook'',
           args = [''-c'', ''ssh'', ''-i'', ''hosts'', ''playbook.yml'', ''-e'', ''pkg_name=nginx'', ''-t'', ''install_package''],
           cwd = Some demo_dir\<rparr>]
   \<and> executed (snd (snd (install_package ''nginx'' (Some []) (centos7\<lparr>work_dir := Some demo_dir\<rparr>) (demo_world (0, [], [])))))
       \<noteq> [\<lparr>program = ''ansible-playbook'',
           args = [''-c'', ''ssh'', ''-i'', ''hosts'', ''playbook.yml'', ''-e'', ''pkg_name='' @ ''nginx'' @ ''-'' @ [], ''-t'', ''install_package''],
           cwd = Some demo_dir\<rparr>]"
proof -
  have f: "full_pkg_name (centos7\<lparr>work_dir := Some demo_dir\<rparr>) ''nginx'' (Some []) = Inr ''nginx''"
    by (simp add: full_pkg_name_def truthy_str_def)
  have "executed (snd (snd (install_package ''nginx'' (Some []) (centos7\<lparr>work_dir := Some demo_dir\<rparr>) (demo_world (0, [], [])))))
       = executed (demo_world (0, [], [])) @ [\<lparr>program = ''ansible-playbook'',
           args = [''-c'', ansible_connection_type (centos7\<lparr>work_dir := Some demo_dir\<rparr>), ''-i'', ''hosts'', ''playbook.yml'', ''-e'', ''pkg_name='' @ ''nginx'', ''-t'', ''install_package''],
           cwd = Some demo_dir\<rparr>]"
    by (rule install_package_executed [OF _ demo_exists f]) simp
  then show ?thesis using centos7_yum by (simp add: centos7_fields demo_world_def)
qed

text \<open>
  C2, amended.  For a call of \<^verbatim>\<open>install_package(name, version)\<close> on a runner whose
  working directory is on disk, the one command run is the playbook with the extra variable
  \<^verbatim>\<open>pkg_name=\<close> followed by: name-version when the version is a non-empty string and the
  package manager resolves to yum; name=version when the version is a non-empty string and
  the package manager resolves to anything else; the bare name when no version or the empty
  string is supplied.
\<close>

theorem install_package_spec_passed:
  assumes "work_dir self = Some d" and "os_path_exists w d"
  shows "(package_version = Some v \<and> v \<noteq> [] \<and> pkg_manager self = Inr ''yum'' \<longrightarrow>
            executed (snd (snd (install_package package_name package_version self w)))
              = executed w @ [\<lparr>program = ''ansible-playbook'',
                                 args = [''-c'', ansible_connection_type self, ''-i'', ''hosts'', ''playbook.yml'',
                                         ''-e'', ''pkg_name='' @ package_name @ ''-'' @ v, ''-t'', ''install_package''],
                                 cwd = Some d\<rparr>])
       \<and> (package_version = Some v \<and> v \<noteq> [] \<and> pkg_manager self = Inr pm \<and> pm \<noteq> ''yum'' \<longrightarrow>
            executed (snd (snd (install_package package_name package_version self w)))
              = executed w @ [\<lparr>program = ''ansible-playbook'',
                                 args = [''-c'', ansible_connection_type self, ''-i'', ''hosts'', ''playbook.yml'',
                                         ''-e'', ''pkg_name='' @ package_name @ ''='' @ v, ''-t'', ''install_package''],
                                 cwd = Some d\<rparr>])
       \<and> (package_version = None \<or> package_version = Some [] \<longrightarrow>
            executed (snd (snd (install_package package_name package_version self w)))
              = executed w @ [\<lparr>program = ''ansible-playbook'',
                                 args = [''-c'', ansible_connection_type self, ''-i'', ''hosts'', ''playbook.yml'',
                                         ''-e'', ''pkg_name='' @ package_name, ''-t'', ''install_package''],
                                 cwd = Some d\<rparr>])"
proof (intro conjI impI)
  assume "package_version = Some v \<and> v \<noteq> [] \<and> pkg_manager self = Inr ''yum''"
  then have "full_pkg_name self package_name package_version = Inr (package_name @ ''-'' @ v)"
    by (simp add: full_pkg_name_def truthy_str_def)
  from install_package_executed [OF assms this]
  show "executed (snd (snd (install_package package_name package_version self w)))
              = executed w @ [\<lparr>program = ''ansible-playbook'',
                                 args = [''-c'', ansible_connection_type self, ''-i'', ''hosts'', ''playbook.yml'',
                                         ''-e'', ''pkg_name='' @ package_name @ ''-'' @ v, ''-t'', ''install_package''],
                                 cwd = Some d\<rparr>]" .
next
  assume "package_version = Some v \<and> v \<noteq> [] \<and> pkg_manager self = Inr pm \<and> pm \<noteq> ''yum''"
  then have "full_pkg_name self package_name package_version = Inr (package_name @ ''='' @ v)"
    by (simp add: full_pkg_name_def truthy_str_def)
  from install_package_executed [OF assms this]
  show "executed (snd (snd (install_package package_name package_version self w)))
              = executed w @ [\<lparr>program = ''ansible-playbook'',
                                 args = [''-c'', ansible_connection_type self, ''-i'', ''hosts'', ''playbook.yml'',
                                         ''-e'', ''pkg_name='' @ package_name @ ''='' @ v, ''-t'', ''install_package''],
                                 cwd = Some d\<rparr>]" .
next
  assume "package_version = None \<or> package_version = Some []"
  then have "full_pkg_name self package_name package_version = Inr package_name"
    by (auto simp add: full_pkg_name_def truthy_str_def)
  from install_package_executed [OF assms this]
  show "executed (snd (snd (install_package package_name package_version self w)))
              = executed w @ [\<lparr>program = ''ansible-playbook'',
                                 args = [''-c'', ansible_connection_type self, ''-i'', ''hosts'', ''playbook.yml'',
                                         ''-e'', ''pkg_name='' @ package_name, ''-t'', ''install_package''],
                                 cwd = Some d\<rparr>]" .
qed

text \<open>
  The amended C2 on a yum runner (centos 7) with version 1.18, on an apt-get runner
  (ubuntu) with version 1.18, and on the yum runner with no version.
\<close>

theorem install_package_spec_passed_witness:
  "executed (snd (snd (install_package ''nginx'' (Some ''1.18'') (centos7\<lparr>work_dir := Some demo_dir\<rparr>) (demo_world (0, [], [])))))
     = [\<lparr>program = ''ansible-playbook'',
         args = [''-c'', ''ssh'', ''-i'', ''hosts'', ''playbook.yml'', ''-e'', ''pkg_name=nginx-1.18'', ''-t'', ''install_package''],
         cwd = Some demo_dir\<rparr>]
   \<and> executed (snd (snd (install_package ''nginx'' (Some ''1.18'') (ubuntu\<lparr>work_dir := Some demo_dir\<rparr>) (demo_world (0, [], [])))))
     = [\<lparr>program = ''ansible-playbook'',
         args = [''-c'', ''ssh'', ''-i'', ''hosts'', ''playbook.yml'', ''-e'', ''pkg_name=nginx=1.18'', ''-t'', ''install_package''],
         cwd = Some demo_dir\<rparr>]
   \<and> executed (snd (snd (install_package ''nginx'' None (centos7\<lparr>work_dir := Some demo_dir\<rparr>) (demo_world (0, [], [])))))
     = [\<lparr>program = ''ansible-playbook'',
         args = [''-c'', ''ssh'', ''-i'', ''hosts'', ''playbook.yml'', ''-e'', ''pkg_name=nginx'', ''-t'', ''install_package''],
         cwd = Some demo_dir\<rparr>]"
proof -
  have c: "work_dir (centos7\<lparr>work_dir := Some demo_dir\<rparr>) = Some demo_dir"
    and u: "work_dir (ubuntu\<lparr>work_dir := Some demo_dir\<rparr>) = Some demo_dir"
    by simp_all
  have e: "executed (demo_world (0, [], [])) = []"
    by (simp add: demo_world_def)
  show ?thesis
    using install_package_spec_passed [OF c demo_exists, where package_version = "Some ''1.18''" and v = "''1.18''"
            and pm = "''yum''" and package_name = "''nginx''" and reply1 = "(0, [], [])"]
      install_package_spec_passed [OF u demo_exists, where package_version = "Some ''1.18''" and v = "''1.18''"
            and pm = "''apt-get''" and package_name = "''nginx''" and reply1 = "(0, [], [])"]
      install_package_spec_passed [OF c demo_exists, where package_version = None and v = "[]"
            and pm = "''yum''" and package_name = "''nginx''" and reply1 = "(0, [], [])"]
      centos7_yum ubuntu_apt
    by (simp add: e centos7_fields ubuntu_fields)
qed

section \<open>Working-directory and artifacts-directory creation\<close>

lemma mkdtemp_pick_Some:
  "mkdtemp_pick ex root pre ns = Some (p, ns') \<Longrightarrow> p \<notin> set ex \<and> (\<exists>n \<in> set ns. p = root @ [pre @ n])"
  by (induction ns) (auto split: if_splits)

lemma mkdtemp_Inr:
  assumes "mkdtemp pre w = (Inr p, w')"
  shows "\<not> os_path_exists w p" and "os_path_exists w' p" and "temp_made w' = temp_made w @ [p]"
    and "prefix pre (last p)" and "executed w' = executed w" and "existing w' = p # existing w"
  using assms mkdtemp_pick_Some [of "existing w" "tmp_root w" pre "temp_names w"]
  by (auto simp add: mkdtemp_def os_path_exists_def split: option.splits prod.splits)



text \<open>
  C8.  If a call of \<^verbatim>\<open>_create_work_dir\<close> returns the path \<open>p\<close>, a second call made in
  any world where \<open>p\<close> is still on disk returns \<open>p\<close> again and changes neither the runner
  nor the world, so it creates nothing.  The first call, on a runner without a working
  directory on disk, has made exactly one temporary directory, \<open>p\<close>, whose name starts with
  \<^verbatim>\<open>base_test_runner_\<close>; on a runner that already had one it returns that one and makes
  none.
\<close>

theorem create_work_dir_twice:
  assumes first: "create_work_dir self w = (Inr p, s1, w1)"
    and still: "os_path_exists w' p"
  shows "create_work_dir s1 w' = (Inr p, s1, w')
       \<and> work_dir s1 = Some p
       \<and> (\<not> has_work_dir self w \<longrightarrow> temp_made w1 = temp_made w @ [p] \<and> prefix ''base_test_runner_'' (last p))
       \<and> (has_work_dir self w \<longrightarrow> w1 = w \<and> s1 = self)"
proof (intro conjI)
  show wd: "work_dir s1 = Some p"
    using first by (auto simp add: create_work_dir_def split: if_splits prod.splits sum.splits)
  show "create_work_dir s1 w' = (Inr p, s1, w')"
    using wd still by (simp add: create_work_dir_def)
  show "\<not> has_work_dir self w \<longrightarrow> temp_made w1 = temp_made w @ [p] \<and> prefix ''base_test_runner_'' (last p)"
  proof
    assume "\<not> has_work_dir self w"
    then have c: "work_dir self = None \<or> \<not> os_path_exists w (the (work_dir self))"
      by (auto simp add: has_work_dir_def split: option.splits)
    have "mkdtemp TEMPFILE_PREFIX w = (Inr p, w1)"
      using first c by (simp add: create_work_dir_def split: prod.splits sum.splits)
    from mkdtemp_Inr(3,4) [OF this]
    show "temp_made w1 = temp_made w @ [p] \<and> prefix ''base_test_runner_'' (last p)"
      by (simp add: TEMPFILE_PREFIX_def)
  qed
  show "has_work_dir self w \<longrightarrow> w1 = w \<and> s1 = self"
    using first by (auto simp add: create_work_dir_def has_work_dir_def split: if_splits prod.splits sum.splits option.splits)
qed

lemma fresh_create:
  "create_work_dir centos7 fresh_world =
     (Inr demo_dir, centos7\<lparr>work_dir := Some demo_dir\<rparr>,
      fresh_world\<lparr>existing := [demo_dir, [''tmp'']], temp_names := [''q7w2''], temp_made := [demo_dir]\<rparr>)"
  by (simp add: create_work_dir_def centos7_fields mkdtemp_def fresh_world_def demo_world_def
        TEMPFILE_PREFIX_def demo_dir_def)

text \<open>
  C8 on a runner just constructed, in a world where only the temporary root exists: the
  two calls return the same path and one directory has been made.
\<close>

theorem create_work_dir_twice_witness:
  "create_work_dir centos7 fresh_world =
     (Inr demo_dir, centos7\<lparr>work_dir := Some demo_dir\<rparr>,
      fresh_world\<lparr>existing := [demo_dir, [''tmp'']], temp_names := [''q7w2''], temp_made := [demo_dir]\<rparr>)
   \<and> create_work_dir (centos7\<lparr>work_dir := Some demo_dir\<rparr>)
        (fresh_world\<lparr>existing := [demo_dir, [''tmp'']], temp_names := [''q7w2''], temp_made := [demo_dir]\<rparr>)
      = (Inr demo_dir, centos7\<lparr>work_dir := Some demo_dir\<rparr>,
         fresh_world\<lparr>existing := [demo_dir, [''tmp'']], temp_names := [''q7w2''], temp_made := [demo_dir]\<rparr>)
   \<and> \<not> has_work_dir centos7 fresh_world
   \<and> temp_made (fresh_world\<lparr>existing := [demo_dir, [''tmp'']], temp_names := [''q7w2''], temp_made := [demo_dir]\<rparr>)
        = temp_made fresh_world @ [demo_dir]
   \<and> prefix ''base_test_runner_'' (last demo_dir)"
proof -
  have ex: "os_path_exists (fresh_world\<lparr>existing := [demo_dir, [''tmp'']], temp_names := [''q7w2''], temp_made := [demo_dir]\<rparr>) demo_dir"
    by (simp add: os_path_exists_def)
  have n: "\<not> has_work_dir centos7 fresh_world"
    by (simp add: has_work_dir_def centos7_fields)
  from create_work_dir_twice [OF fresh_create ex] n fresh_create show ?thesis by simp
qed

text \<open>
  What holds of \<^verbatim>\<open>_create_artifacts_dir\<close>: a returned path is the recorded working
  directory extended by the component \<^verbatim>\<open>artifacts\<close> and is on disk afterwards, and a
  runner with no working directory recorded gets one made first.
\<close>

lemma create_artifacts_dir_path:
  assumes "create_artifacts_dir self w = (Inr path, s1, w1)"
  shows "\<exists>d. work_dir s1 = Some d \<and> path = d @ [''artifacts''] \<and> os_path_exists w1 path"
  using assms
  apply (simp add: create_artifacts_dir_def create_work_dir_def Let_def split: if_splits prod.splits sum.splits)
  apply (auto simp add: os_mkdir_def os_path_exists_def split: if_splits)
  done

lemma create_artifacts_dir_unrecorded:
  assumes "work_dir self = None" and "create_artifacts_dir self w = (Inr path, s1, w1)"
  shows "\<exists>p w'. mkdtemp TEMPFILE_PREFIX w = (Inr p, w') \<and> work_dir s1 = Some p \<and> path = p @ [''artifacts'']"
  using assms
  by (auto simp add: create_artifacts_dir_def create_work_dir_def Let_def split: if_splits prod.splits sum.splits)

text \<open>
  C9 at a runner whose recorded working directory is no longer on disk: the guard of
  \<^verbatim>\<open>_create_artifacts_dir\<close> tests only that a directory is recorded, so no working
  directory is made (no temporary directory at all), and \<^verbatim>\<open>os.mkdir\<close> of the
  \<^verbatim>\<open>artifacts\<close> path under the missing parent raises \<open>FileNotFoundError\<close>; the runner
  and the world are unchanged.
\<close>

theorem create_artifacts_dir_stale_work_dir:
  "\<not> os_path_exists fresh_world demo_dir
   \<and> create_artifacts_dir (centos7\<lparr>work_dir := Some demo_dir\<rparr>) fresh_world
       = (Inl (FileNotFoundError ''No such file or directory''), centos7\<lparr>work_dir := Some demo_dir\<rparr>, fresh_world)
   \<and> temp_made fresh_world = []"
  by (simp add: create_artifacts_dir_def os_mkdir_def os_path_exists_def fresh_world_def demo_world_def demo_dir_def)

section \<open>Single-file upload\<close>

lemma str_int_small: "str_int 0 = ''0''" "str_int (- 1) = ''-1''"
  by code_simp+

lemma content_range_empty: "content_range 0 (- 1) 0 = ''bytes 0--1/0''"
  by (simp add: content_range_def str_int_small)

lemma calls_pulp_logger [simp]: "calls (pulp_logger lv m env) = calls env"
  and files_pulp_logger [simp]: "files (pulp_logger lv m env) = files env"
  and server_pulp_logger [simp]: "server (pulp_logger lv m env) = server env"
  by (simp_all add: pulp_logger_def)

lemma calls_time_sleep [simp]: "calls (time_sleep n env) = calls env"
  and files_time_sleep [simp]: "files (time_sleep n env) = files env"
  and server_time_sleep [simp]: "server (time_sleep n env) = server env"
  by (simp_all add: time_sleep_def)

lemma tasks_read_calls:
  "tasks_read h t env = (r, env') \<Longrightarrow> calls env' = calls env @ [TasksRead h t]"
  by (auto simp add: tasks_read_def)

lemma poll_task_prefix:
  "poll_task fuel self h res env = (r, env') \<Longrightarrow> prefix (calls env) (calls env')"
proof (induction fuel arbitrary: res env)
  case 0
  then show ?case by (auto simp add: poll_task.simps split: if_splits)
next
  case (Suc k)
  show ?case
  proof (cases "state res \<notin> set [''failed'', ''completed'']")
    case False
    with Suc.prems show ?thesis by (auto simp add: poll_task.simps)
  next
    case True
    obtain r1 env1 where t: "tasks_read h (Some (requests_timeout self)) (time_sleep 20 env) = (r1, env1)"
      by (cases "tasks_read h (Some (requests_timeout self)) (time_sleep 20 env)") auto
    then have c1: "calls env1 = calls env @ [TasksRead h (Some (requests_timeout self))]"
      using tasks_read_calls by fastforce
    show ?thesis
    proof (cases r1)
      case (Inl e)
      with Suc.prems True t c1 show ?thesis
        by (simp add: poll_task.simps [of "Suc k"])
    next
      case (Inr res')
      with Suc.prems True t have "poll_task k self h res' env1 = (r, env')"
        by (simp add: poll_task.simps [of "Suc k"])
      from Suc.IH [OF this] c1 show ?thesis
        by (metis prefix_order.dual_order.trans prefixI)
    qed
  qed
qed

lemma wait_prefix:
  "wait_for_task_completion fuel self h env = (r, env') \<Longrightarrow> prefix (calls env) (calls env')"
proof -
  assume a: "wait_for_task_completion fuel self h env = (r, env')"
  obtain r1 env1 where t: "tasks_read h None env = (r1, env1)"
    by (cases "tasks_read h None env") auto
  then have c1: "prefix (calls env) (calls env1)"
    using tasks_read_calls by fastforce
  show ?thesis
  proof (cases r1)
    case (Inl e)
    with a t c1 show ?thesis by (simp add: wait_for_task_completion_def)
  next
    case (Inr res0)
    obtain r2 env2 where p: "poll_task fuel self h res0 env1 = (r2, env2)"
      by (cases "poll_task fuel self h res0 env1") auto
    from poll_task_prefix [OF p] c1 have "prefix (calls env) (calls env2)" by auto
    moreover have "env' = env2"
      using a t Inr p by (auto simp add: wait_for_task_completion_def split: option.splits sum.splits if_splits)
    ultimately show ?thesis by simp
  qed
qed

lemma commit_upload_calls:
  assumes "files env file_path = Some f"
    and "commit_upload fuel self file_path reference env = (r, env')"
  shows "prefix (calls env @ [UploadsCommit reference (sha256 f) (Some (requests_timeout self))]) (calls env')"
proof -
  let ?c = "UploadsCommit reference (sha256 f) (Some (requests_timeout self))"
  have h: "hash_file env file_path = Inr (sha256 f)"
    using assms(1) by (simp add: hash_file_def)
  obtain r1 env1 where u: "uploads_commit reference (sha256 f) (Some (requests_timeout self)) env = (r1, env1)"
    by (cases "uploads_commit reference (sha256 f) (Some (requests_timeout self)) env") auto
  then have c1: "calls env1 = calls env @ [?c]"
    by (auto simp add: uploads_commit_def)
  show ?thesis
  proof (cases r1)
    case (Inl e)
    with assms(2) h u c1 show ?thesis by (simp add: commit_upload_def)
  next
    case (Inr task)
    obtain r2 env2 where w: "wait_for_task_completion fuel self task env1 = (r2, env2)"
      by (cases "wait_for_task_completion fuel self task env1") auto
    have "env' = env2"
      using assms(2) h u Inr w
      by (auto simp add: commit_upload_def split: option.splits sum.splits list.splits)
    with wait_prefix [OF w] c1 show ?thesis by simp
  qed
qed

lemma demo_files:
  "files demo_env ''/logs/empty.log'' = Some \<lparr>size_bytes = 0, sha256 = ''e3b0c442''\<rparr>"
  "files demo_env ''/logs/tests.log'' = Some \<lparr>size_bytes = 25, sha256 = ''9f86d081''\<rparr>"
  by (simp_all add: demo_env_def)

lemma demo_timeout: "requests_timeout demo_uploader = 120" and demo_chunk: "chunk_size demo_uploader = 10"
  by (simp_all add: demo_uploader_def DEFAULT_TIMEOUT_def)

text \<open>
  C5.  When the file exists and the server's list for its SHA-256 digest is non-empty with
  a non-empty first reference (the existence check reports the digest),
  \<^verbatim>\<open>upload_single_file\<close> returns at once the record whose href is that first reference,
  whose name is the base name of the file and whose type is the given one,
  \<^verbatim>\<open>test_log\<close> when omitted; the only request sent is the list request, so no upload is
  created, no bytes are sent and nothing is committed.
\<close>

theorem upload_single_file_short_circuit:
  assumes "files env file_name = Some f"
    and "on_list (server env) (calls env) (sha256 f) = Inr (r # rs)"
    and "r \<noteq> []"
  shows "upload_single_file fuel self file_name type_arg env =
           (Some (Inr \<lparr>rec_name = os_path_basename file_name, rec_href = r,
                        rec_type = (case type_arg of None \<Rightarrow> ''test_log'' | Some t \<Rightarrow> t)\<rparr>),
            env\<lparr>calls := calls env @ [ArtifactsList (sha256 f) (Some (requests_timeout self))]\<rparr>)"
  using assms
  by (simp add: upload_single_file_def hash_file_def check_if_artifact_exists_def artifacts_list_def
      truthy_str_def Let_def)

text \<open>
  C5 on the 25-byte file once its digest has been committed: the call returns the
  existing reference and adds only the list request.
\<close>

theorem upload_single_file_short_circuit_witness:
  "upload_single_file 0 demo_uploader ''/logs/tests.log'' None committed_env
     = (Some (Inr \<lparr>rec_name = ''tests.log'', rec_href = ''/pulp/api/v3/artifacts/1/'', rec_type = ''test_log''\<rparr>),
        committed_env\<lparr>calls := [UploadsCommit ''/pulp/api/v3/uploads/1/'' ''9f86d081'' (Some 120),
                                 ArtifactsList ''9f86d081'' (Some 120)]\<rparr>)"
proof -
  have f: "files committed_env ''/logs/tests.log'' = Some \<lparr>size_bytes = 25, sha256 = ''9f86d081''\<rparr>"
    by (simp add: committed_env_def demo_env_def)
  have l: "on_list (server committed_env) (calls committed_env) (sha256 \<lparr>size_bytes = 25, sha256 = ''9f86d081''\<rparr>)
             = Inr [''/pulp/api/v3/artifacts/1/'']"
    by (simp add: committed_env_def demo_env_def demo_server_def)
  have n: "''/pulp/api/v3/artifacts/1/'' \<noteq> []" by simp
  have b: "os_path_basename ''/logs/tests.log'' = ''tests.log''"
    by (simp add: os_path_basename_def)
  show ?thesis
    using upload_single_file_short_circuit [OF f l n, of 0 demo_uploader None]
    by (simp add: b demo_timeout committed_env_def)
qed

text \<open>
  C10.  For a file of 0 bytes whose digest the server does not list, with a chunk size
  that is not negative and an upload that the server creates, the requests sent by
  \<^verbatim>\<open>upload_single_file\<close>, whatever the number of polls, begin with the list request, the
  creation of an upload of size 0 and one update with the content range
  \<^verbatim>\<open>bytes 0--1/0\<close> (lower bound 0, upper bound -1 of 0); when the server accepts that update
  the commit request follows it.
\<close>

theorem empty_file_content_range:
  assumes fl: "files env file_path = Some f" and empty: "size_bytes f = 0"
    and absent: "on_list (server env) (calls env) (sha256 f) = Inr []"
    and threshold: "0 \<le> chunk_size self"
    and created: "on_create (server env)
                    (calls env @ [ArtifactsList (sha256 f) (Some (requests_timeout self))]) 0 = Inr reference"
  shows "prefix (calls env @ [ArtifactsList (sha256 f) (Some (requests_timeout self)),
                              UploadsCreate 0 (Some (requests_timeout self)),
                              UploadsUpdate ''bytes 0--1/0'' reference file_path (Some (requests_timeout self))])
                (calls (snd (upload_single_file fuel self file_path type_arg env)))
       \<and> (on_update (server env)
             (calls env @ [ArtifactsList (sha256 f) (Some (requests_timeout self)),
                           UploadsCreate 0 (Some (requests_timeout self))])
             ''bytes 0--1/0'' reference file_path = Inr ()
           \<longrightarrow> prefix (calls env @ [ArtifactsList (sha256 f) (Some (requests_timeout self)),
                                   UploadsCreate 0 (Some (requests_timeout self)),
                                   UploadsUpdate ''bytes 0--1/0'' reference file_path (Some (requests_timeout self)),
                                   UploadsCommit reference (sha256 f) (Some (requests_timeout self))])
                       (calls (snd (upload_single_file fuel self file_path type_arg env))))"
proof -
  let ?t = "Some (requests_timeout self)"
  let ?env1 = "env\<lparr>calls := calls env @ [ArtifactsList (sha256 f) ?t]\<rparr>"
  let ?env2 = "?env1\<lparr>calls := calls ?env1 @ [UploadsCreate 0 ?t]\<rparr>"
  let ?env3 = "?env2\<lparr>calls := calls ?env2 @ [UploadsUpdate ''bytes 0--1/0'' reference file_path ?t]\<rparr>"
  let ?upd = "on_update (server env) (calls ?env2) ''bytes 0--1/0'' reference file_path"
  have us: "snd (upload_single_file fuel self file_path type_arg env) = snd (send_file fuel self file_path ?env1)"
    using fl absent
    by (simp add: upload_single_file_def hash_file_def check_if_artifact_exists_def artifacts_list_def
        Let_def split: prod.splits option.splits sum.splits)
  have cu: "create_upload self file_path ?env1 = (Inr (reference, 0), ?env2)"
    using fl empty created by (simp add: create_upload_def os_path_getsize_def uploads_create_def)
  have sf: "send_file fuel self file_path ?env1 =
             (case ?upd of Inl e \<Rightarrow> (Some (Inl e), ?env3)
              | Inr u \<Rightarrow> commit_upload fuel self file_path reference ?env3)"
    using threshold by (simp add: send_file_def cu uploads_update_def content_range_empty split: sum.splits)
  show ?thesis
  proof (cases ?upd)
    case (Inl e)
    then show ?thesis using us sf by simp
  next
    case (Inr u)
    obtain r env' where c: "commit_upload fuel self file_path reference ?env3 = (r, env')"
      by (cases "commit_upload fuel self file_path reference ?env3") auto
    have "files ?env3 file_path = Some f" using fl by simp
    from commit_upload_calls [OF this c]
    have p: "prefix (calls ?env3 @ [UploadsCommit reference (sha256 f) ?t]) (calls env')" .
    have e: "snd (upload_single_file fuel self file_path type_arg env) = env'"
      using us sf Inr c by simp
    have p1: "prefix (calls env @ [ArtifactsList (sha256 f) ?t, UploadsCreate 0 ?t,
                 UploadsUpdate ''bytes 0--1/0'' reference file_path ?t,
                 UploadsCommit reference (sha256 f) ?t]) (calls env')"
      using p by simp
    then have p0: "prefix (calls env @ [ArtifactsList (sha256 f) ?t, UploadsCreate 0 ?t,
                 UploadsUpdate ''bytes 0--1/0'' reference file_path ?t]) (calls env')"
      by (auto simp add: prefix_def)
    show ?thesis using e p1 p0 by simp
  qed
qed

text \<open>C10 on the empty file of \<open>demo_env\<close>.\<close>

theorem empty_file_content_range_witness:
  "prefix [ArtifactsList ''e3b0c442'' (Some 120),
           UploadsCreate 0 (Some 120),
           UploadsUpdate ''bytes 0--1/0'' ''/pulp/api/v3/uploads/1/'' ''/logs/empty.log'' (Some 120),
           UploadsCommit ''/pulp/api/v3/uploads/1/'' ''e3b0c442'' (Some 120)]
     (calls (snd (upload_single_file 3 demo_uploader ''/logs/empty.log'' None demo_env)))"
proof -
  have a: "on_list (server demo_env) (calls demo_env) (sha256 \<lparr>size_bytes = 0, sha256 = ''e3b0c442''\<rparr>) = Inr []"
    by (simp add: demo_env_def demo_server_def)
  have b: "(0::int) \<le> chunk_size demo_uploader"
    by (simp add: demo_chunk)
  have c: "on_create (server demo_env)
             (calls demo_env @ [ArtifactsList (sha256 \<lparr>size_bytes = 0, sha256 = ''e3b0c442''\<rparr>)
                                  (Some (requests_timeout demo_uploader))]) 0
           = Inr ''/pulp/api/v3/uploads/1/''"
    by (simp add: demo_env_def demo_server_def)
  have d: "on_update (server demo_env)
             (calls demo_env @ [ArtifactsList (sha256 \<lparr>size_bytes = 0, sha256 = ''e3b0c442''\<rparr>)
                                  (Some (requests_timeout demo_uploader)),
                                UploadsCreate 0 (Some (requests_timeout demo_uploader))])
             ''bytes 0--1/0'' ''/pulp/api/v3/uploads/1/'' ''/logs/empty.log'' = Inr ()"
    by (simp add: demo_env_def demo_server_def)
  have e: "calls demo_env = []"
    by (simp add: demo_env_def)
  show ?thesis
    using empty_file_content_range [OF demo_files(1) _ a b c, of 3 None] d
    by (simp add: demo_timeout e)
qed

section \<open>Chunked transfer\<close>

lemma spec_ranges_Cons:
  "spec_ranges (s # ss) = (0, s - 1) # map (\<lambda>(a, b). (s + a, s + b)) (spec_ranges ss)"
proof -
  have "[0..<length (s # ss)] = 0 # map Suc [0..<length ss]"
    by (simp add: upt_conv_Cons map_Suc_upt del: upt_Suc)
  then show ?thesis
    by (simp add: spec_ranges_def del: upt_Suc)
qed

lemma ranges_from_shift: "ranges_from lo ss = map (\<lambda>(a, b). (lo + a, lo + b)) (spec_ranges ss)"
proof (induction ss arbitrary: lo)
  case Nil
  show ?case by (simp add: spec_ranges_def)
next
  case (Cons s ss)
  show ?case
    by (simp add: spec_ranges_Cons Cons.IH [of "lo + s"] case_prod_unfold comp_def algebra_simps)
qed

lemma ranges_from_0: "ranges_from 0 ss = spec_ranges ss"
  by (simp add: ranges_from_shift case_prod_unfold)

lemma put_chunks_calls:
  "put_chunks self td ref tot lo ms env = (r, env') \<Longrightarrow>
     \<exists>k \<le> length ms.
        calls env' = calls env @ take k (map (\<lambda>((a, b), meta).
            UploadsUpdate (content_range a b tot) ref (os_path_join td (filename meta)) (Some (requests_timeout self)))
          (zip (ranges_from lo (map filesize ms)) ms))
        \<and> (r = Inr () \<longrightarrow> k = length ms) \<and> temp_dirs env' = temp_dirs env"
proof (induction ms arbitrary: lo env)
  case Nil
  then show ?case by auto
next
  case (Cons m ms)
  let ?c = "UploadsUpdate (content_range lo (lo + filesize m - 1) tot) ref (os_path_join td (filename m)) (Some (requests_timeout self))"
  let ?env1 = "env\<lparr>calls := calls env @ [?c]\<rparr>"
  let ?u = "on_update (server env) (calls env) (content_range lo (lo + filesize m - 1) tot) ref (os_path_join td (filename m))"
  show ?case
  proof (cases ?u)
    case (Inl e)
    with Cons.prems have "env' = ?env1"
      by (auto simp add: uploads_update_def)
    then have "calls env' = calls env @ take 1 (map (\<lambda>((a, b), meta).
            UploadsUpdate (content_range a b tot) ref (os_path_join td (filename meta)) (Some (requests_timeout self)))
          (zip (ranges_from lo (map filesize (m # ms))) (m # ms)))" and "temp_dirs env' = temp_dirs env"
      by simp_all
    moreover have "r \<noteq> Inr ()"
      using Cons.prems Inl by (auto simp add: uploads_update_def)
    ultimately show ?thesis
      by (intro exI [of _ 1]) simp
  next
    case (Inr u)
    with Cons.prems have "put_chunks self td ref tot (lo + filesize m) ms ?env1 = (r, env')"
      by (simp add: uploads_update_def)
    from Cons.IH [OF this] obtain k where k: "k \<le> length ms"
      "calls env' = calls ?env1 @ take k (map (\<lambda>((a, b), meta).
            UploadsUpdate (content_range a b tot) ref (os_path_join td (filename meta)) (Some (requests_timeout self)))
          (zip (ranges_from (lo + filesize m) (map filesize ms)) ms))"
      "r = Inr () \<longrightarrow> k = length ms" "temp_dirs env' = temp_dirs ?env1"
      by blast
    show ?thesis
      using k by (intro exI [of _ "Suc k"]) simp
  qed
qed

lemma spec_ranges_nth:
  "i < length sizes \<Longrightarrow> spec_ranges sizes ! i = (sum_list (take i sizes), sum_list (take (Suc i) sizes) - 1)"
  by (simp add: spec_ranges_def del: upt_Suc)

lemma length_spec_ranges [simp]: "length (spec_ranges sizes) = length sizes"
  by (simp add: spec_ranges_def)

lemma length_expected_updates [simp]:
  "length (expected_updates self temp_dir reference total_size manifest) = length manifest"
  by (simp add: expected_updates_def)

text \<open>
  C6.  When the temporary directory is made, the file exists (its size is the total) and
  the splitting utility returns a manifest, the update requests that
  \<^verbatim>\<open>_put_large_file\<close> sends are the first \<open>k\<close> of the expected ones, and all of them
  (\<open>k = n\<close>) when the transfer returns without raising.  The \<open>i\<close>-th expected request
  carries, for the \<open>i\<close>-th manifest row, the range from the sum of the sizes before it up
  to that sum plus its size minus one, out of the total size.  The first range starts at
  0, each next range starts one byte after the previous one ends, and when the sizes sum to
  the total the last range ends at total - 1.
\<close>

theorem chunked_transfer_ranges:
  assumes "mkdtemp_reply env ''pulp_uploader_'' = Inr temp_dir"
    and "files env file_path = Some f"
    and "splitter env file_path (chunk_size self) temp_dir = Inr manifest"
  shows "(\<exists>k \<le> length manifest.
            calls (snd (put_large_file self file_path reference env))
              = calls env @ take k (expected_updates self temp_dir reference (size_bytes f) manifest)
            \<and> (fst (put_large_file self file_path reference env) = Inr () \<longrightarrow> k = length manifest))
       \<and> (\<forall>i < length manifest.
            expected_updates self temp_dir reference (size_bytes f) manifest ! i
              = UploadsUpdate
                  (content_range (sum_list (take i (map filesize manifest)))
                                 (sum_list (take i (map filesize manifest)) + filesize (manifest ! i) - 1)
                                 (size_bytes f))
                  reference (os_path_join temp_dir (filename (manifest ! i))) (Some (requests_timeout self)))
       \<and> (manifest \<noteq> [] \<longrightarrow> fst (spec_ranges (map filesize manifest) ! 0) = 0)
       \<and> (\<forall>i. Suc i < length manifest \<longrightarrow>
             fst (spec_ranges (map filesize manifest) ! Suc i) = snd (spec_ranges (map filesize manifest) ! i) + 1)
       \<and> (manifest \<noteq> [] \<and> sum_list (map filesize manifest) = size_bytes f \<longrightarrow>
             snd (last (spec_ranges (map filesize manifest))) = size_bytes f - 1)"
proof (intro conjI allI impI)
  let ?env0 = "env\<lparr>temp_dirs := temp_dir # temp_dirs env\<rparr>"
  obtain r env1 where p: "put_chunks self temp_dir reference (size_bytes f) 0 manifest ?env0 = (r, env1)"
    by (cases "put_chunks self temp_dir reference (size_bytes f) 0 manifest ?env0") auto
  have plf: "put_large_file self file_path reference env = (r, remove_temp_dir temp_dir env1)"
    using assms p by (simp add: put_large_file_def os_path_getsize_def Let_def)
  have rm: "calls (remove_temp_dir temp_dir env1) = calls env1"
    by (simp add: remove_temp_dir_def)
  from put_chunks_calls [OF p] obtain k where k: "k \<le> length manifest"
    "calls env1 = calls ?env0 @ take k (expected_updates self temp_dir reference (size_bytes f) manifest)"
    "r = Inr () \<longrightarrow> k = length manifest"
    by (auto simp add: expected_updates_def ranges_from_0)
  show "\<exists>k \<le> length manifest.
            calls (snd (put_large_file self file_path reference env))
              = calls env @ take k (expected_updates self temp_dir reference (size_bytes f) manifest)
            \<and> (fst (put_large_file self file_path reference env) = Inr () \<longrightarrow> k = length manifest)"
    using k by (intro exI [of _ k]) (simp add: plf rm)
next
  fix i assume i: "i < length manifest"
  have "take (Suc i) (map filesize manifest) = take i (map filesize manifest) @ [filesize (manifest ! i)]"
    using i by (simp add: take_Suc_conv_app_nth)
  then show "expected_updates self temp_dir reference (size_bytes f) manifest ! i
              = UploadsUpdate
                  (content_range (sum_list (take i (map filesize manifest)))
                                 (sum_list (take i (map filesize manifest)) + filesize (manifest ! i) - 1)
                                 (size_bytes f))
                  reference (os_path_join temp_dir (filename (manifest ! i))) (Some (requests_timeout self))"
    using i by (simp add: expected_updates_def spec_ranges_nth)
next
  assume "manifest \<noteq> []"
  then show "fst (spec_ranges (map filesize manifest) ! 0) = 0"
    by (simp add: spec_ranges_nth)
next
  fix i assume i: "Suc i < length manifest"
  then show "fst (spec_ranges (map filesize manifest) ! Suc i) = snd (spec_ranges (map filesize manifest) ! i) + 1"
    by (simp add: spec_ranges_nth)
next
  assume a: "manifest \<noteq> [] \<and> sum_list (map filesize manifest) = size_bytes f"
  then have "spec_ranges (map filesize manifest) \<noteq> []"
    by (simp add: spec_ranges_def)
  then have "last (spec_ranges (map filesize manifest)) = spec_ranges (map filesize manifest) ! (length manifest - 1)"
    by (simp add: last_conv_nth)
  also have "\<dots> = (sum_list (take (length manifest - 1) (map filesize manifest)),
                    sum_list (take (Suc (length manifest - 1)) (map filesize manifest)) - 1)"
    using a by (intro spec_ranges_nth) simp
  finally show "snd (last (spec_ranges (map filesize manifest))) = size_bytes f - 1"
    using a by simp
qed

lemma demo_expected:
  "expected_updates demo_uploader ''/tmp/pulp_uploader_a1b2'' ''/pulp/api/v3/uploads/1/'' 25
     [\<lparr>filename = ''tests_1.log'', filesize = 10\<rparr>,
      \<lparr>filename = ''tests_2.log'', filesize = 10\<rparr>,
      \<lparr>filename = ''tests_3.log'', filesize = 5\<rparr>]
   = [UploadsUpdate ''bytes 0-9/25'' ''/pulp/api/v3/uploads/1/'' ''/tmp/pulp_uploader_a1b2/tests_1.log'' (Some 120),
      UploadsUpdate ''bytes 10-19/25'' ''/pulp/api/v3/uploads/1/'' ''/tmp/pulp_uploader_a1b2/tests_2.log'' (Some 120),
      UploadsUpdate ''bytes 20-24/25'' ''/pulp/api/v3/uploads/1/'' ''/tmp/pulp_uploader_a1b2/tests_3.log'' (Some 120)]"
  by code_simp

text \<open>
  C6 on the 25-byte file cut into chunks of 10, 10 and 5 bytes: the ranges sent are
  0-9, 10-19 and 20-24 of 25.
\<close>

theorem chunked_transfer_ranges_witness:
  "calls (snd (put_large_file demo_uploader ''/logs/tests.log'' ''/pulp/api/v3/uploads/1/'' demo_env))
     = [UploadsUpdate ''bytes 0-9/25'' ''/pulp/api/v3/uploads/1/'' ''/tmp/pulp_uploader_a1b2/tests_1.log'' (Some 120),
        UploadsUpdate ''bytes 10-19/25'' ''/pulp/api/v3/uploads/1/'' ''/tmp/pulp_uploader_a1b2/tests_2.log'' (Some 120),
        UploadsUpdate ''bytes 20-24/25'' ''/pulp/api/v3/uploads/1/'' ''/tmp/pulp_uploader_a1b2/tests_3.log'' (Some 120)]"
proof -
  let ?m = "[\<lparr>filename = ''tests_1.log'', filesize = 10\<rparr>,
             \<lparr>filename = ''tests_2.log'', filesize = 10\<rparr>,
             \<lparr>filename = ''tests_3.log'', filesize = 5\<rparr>]"
  have a: "mkdtemp_reply demo_env ''pulp_uploader_'' = Inr ''/tmp/pulp_uploader_a1b2''"
    by (simp add: demo_env_def)
  have b: "splitter demo_env ''/logs/tests.log'' (chunk_size demo_uploader) ''/tmp/pulp_uploader_a1b2'' = Inr ?m"
    by (simp add: demo_env_def)
  have ok: "fst (put_large_file demo_uploader ''/logs/tests.log'' ''/pulp/api/v3/uploads/1/'' demo_env) = Inr ()"
    by (simp add: put_large_file_def demo_env_def os_path_getsize_def uploads_update_def demo_server_def Let_def)
  have c: "calls demo_env = []"
    by (simp add: demo_env_def)
  from chunked_transfer_ranges [OF a demo_files(2) b, of "''/pulp/api/v3/uploads/1/''"]
  obtain k where "k \<le> length ?m"
    and "calls (snd (put_large_file demo_uploader ''/logs/tests.log'' ''/pulp/api/v3/uploads/1/'' demo_env))
          = calls demo_env @ take k (expected_updates demo_uploader ''/tmp/pulp_uploader_a1b2'' ''/pulp/api/v3/uploads/1/'' 25 ?m)"
    and "fst (put_large_file demo_uploader ''/logs/tests.log'' ''/pulp/api/v3/uploads/1/'' demo_env) = Inr () \<longrightarrow> k = length ?m"
    by auto
  with ok have "calls (snd (put_large_file demo_uploader ''/logs/tests.log'' ''/pulp/api/v3/uploads/1/'' demo_env))
          = calls demo_env @ take (Suc (Suc (Suc 0))) (expected_updates demo_uploader ''/tmp/pulp_uploader_a1b2'' ''/pulp/api/v3/uploads/1/'' 25 ?m)"
    by simp
  then show ?thesis
    by (simp add: demo_expected c)
qed

section \<open>Batch upload\<close>



section \<open>An upload run alone is the upload function\<close>

lemma run_atomic [simp]: "run (atomic prim k) env = (case prim env of (r, env') \<Rightarrow> run (k r) env')"
  by (simp add: atomic_def split: prod.splits)

lemma run_reading [simp]: "run (reading look k) env = run (k (look env)) env"
  by (simp add: reading_def)

lemma run_writing [simp]: "run (writing change p) env = run p (change env)"
  by (simp add: writing_def)

lemma run_check:
  "run (check_if_artifact_exists_steps self digest k) env =
     (case check_if_artifact_exists self digest env of (r, env') \<Rightarrow> run (k r) env')"
  by (simp add: check_if_artifact_exists_steps_def check_if_artifact_exists_def
      split: prod.splits sum.splits list.splits)

lemma run_create_upload:
  "run (create_upload_steps self file_path k) env =
     (case create_upload self file_path env of (r, env') \<Rightarrow> run (k r) env')"
  by (simp add: create_upload_steps_def create_upload_def split: prod.splits sum.splits)

lemma run_poll_task:
  "run (poll_task_steps fuel self h res k) env =
     (case poll_task fuel self h res env of (r, env') \<Rightarrow> run (k r) env')"
proof (induction fuel arbitrary: res env)
  case 0
  show ?case by (simp add: poll_task.simps [of 0])
next
  case (Suc n)
  show ?case
    by (simp add: poll_task.simps [of "Suc n"] Suc.IH split: prod.splits sum.splits)
qed

lemma run_wait:
  "run (wait_for_task_completion_steps fuel self h k) env =
     (case wait_for_task_completion fuel self h env of (r, env') \<Rightarrow> run (k r) env')"
  by (simp add: wait_for_task_completion_steps_def wait_for_task_completion_def run_poll_task
      split: prod.splits sum.splits option.splits)

lemma run_commit_upload:
  "run (commit_upload_steps fuel self file_path reference k) env =
     (case commit_upload fuel self file_path reference env of (r, env') \<Rightarrow> run (k r) env')"
  by (simp add: commit_upload_steps_def commit_upload_def run_wait
      split: prod.splits sum.splits option.splits list.splits)

lemma run_put_chunks:
  "run (put_chunks_steps self td ref tot lo ms k) env =
     (case put_chunks self td ref tot lo ms env of (r, env') \<Rightarrow> run (k r) env')"
  by (induction ms arbitrary: lo env) (simp_all split: prod.splits sum.splits)

lemma run_put_large_file:
  "run (put_large_file_steps self file_path reference k) env =
     (case put_large_file self file_path reference env of (r, env') \<Rightarrow> run (k r) env')"
  by (simp add: put_large_file_steps_def put_large_file_def make_temp_dir_def run_put_chunks
      os_path_getsize_def Let_def split: prod.splits sum.splits option.splits)

lemma run_send_file:
  "run (send_file_steps fuel self file_path k) env =
     (case send_file fuel self file_path env of (r, env') \<Rightarrow> run (k r) env')"
  by (simp add: send_file_steps_def send_file_def run_create_upload run_put_large_file run_commit_upload
      split: prod.splits sum.splits)

lemma run_upload_single_file:
  "run (upload_single_file_steps fuel self file_name type_arg k) env =
     (case upload_single_file fuel self file_name type_arg env of (r, env') \<Rightarrow> run (k r) env')"
  by (simp add: upload_single_file_steps_def upload_single_file_def run_check run_send_file Let_def
      split: prod.splits sum.splits option.splits)

section \<open>Steps of an upload under interleaving\<close>




































lemma serial_workers:
  "run_workers fuel self [] (map Pending (a # arts)) env =
     (case upload_single_file fuel self a None env of
        (r, env') \<Rightarrow>
          (case run_workers fuel self [] (map Pending arts) env' of
             (tasks, env'') \<Rightarrow> (Finished a r # tasks, env'')))"
  by (simp add: run_workers_def run_upload_single_file split: prod.splits)







end
